theory Spec2Isabelle
  imports Main "HOL-Library.Word" "HOL-Library.Finite_Map"
begin

unbundle bit_operations_syntax

section \<open>The device model of linux-driver-management (src/lib/device.c)\<close>

text \<open>
  An \<open>LdmDevice\<close> is a GObject with three groups of fields: \<open>os\<close> (sysfs path,
  modalias, the private copy of the hwdb properties, the type and attribute bitmasks),
  \<open>id\<close> (name, vendor, product and vendor id) and \<open>tree\<close> (the parent pointer and
  the hash table of owned children, keyed by sysfs path).

  The embedding is a tree of values. The children table owns its values
  (\<open>g_hash_table_new_full\<close> with \<open>g_object_unref\<close> as value destructor, children are
  handed over with \<open>g_object_ref_sink\<close>), so a child is stored as a whole subtree. A
  \<open>GHashTable\<close> is a finite map whose iteration order is unspecified: it is a
  \<open>fmap\<close>. The parent pointer is not owning and is never followed by device.c; it is
  kept as an address. A \<open>gchar *\<close> or an \<open>LdmDevice *\<close> that may be \<open>NULL\<close> is an
  \<open>option\<close>. Reference counts are not modelled: where it matters whether a node is still
  referenced, that is a parameter.
\<close>

subsection \<open>Bitmasks (src/lib/device.h)\<close>

type_synonym gint = "32 word"
type_synonym LdmDeviceType = "32 word"
type_synonym LdmDeviceAttribute = "32 word"

definition LDM_DEVICE_TYPE_ANY :: LdmDeviceType where "LDM_DEVICE_TYPE_ANY = 0"
definition LDM_DEVICE_TYPE_AUDIO :: LdmDeviceType where "LDM_DEVICE_TYPE_AUDIO = push_bit 0 1"
definition LDM_DEVICE_TYPE_GPU :: LdmDeviceType where "LDM_DEVICE_TYPE_GPU = push_bit 1 1"
definition LDM_DEVICE_TYPE_HID :: LdmDeviceType where "LDM_DEVICE_TYPE_HID = push_bit 2 1"
definition LDM_DEVICE_TYPE_IMAGE :: LdmDeviceType where "LDM_DEVICE_TYPE_IMAGE = push_bit 3 1"
definition LDM_DEVICE_TYPE_PCI :: LdmDeviceType where "LDM_DEVICE_TYPE_PCI = push_bit 4 1"
definition LDM_DEVICE_TYPE_PRINTER :: LdmDeviceType where "LDM_DEVICE_TYPE_PRINTER = push_bit 5 1"
definition LDM_DEVICE_TYPE_STORAGE :: LdmDeviceType where "LDM_DEVICE_TYPE_STORAGE = push_bit 6 1"
definition LDM_DEVICE_TYPE_VIDEO :: LdmDeviceType where "LDM_DEVICE_TYPE_VIDEO = push_bit 7 1"
definition LDM_DEVICE_TYPE_WIRELESS :: LdmDeviceType where "LDM_DEVICE_TYPE_WIRELESS = push_bit 8 1"
definition LDM_DEVICE_TYPE_USB :: LdmDeviceType where "LDM_DEVICE_TYPE_USB = push_bit 9 1"

definition LDM_DEVICE_ATTRIBUTE_NONE :: LdmDeviceAttribute where "LDM_DEVICE_ATTRIBUTE_NONE = 0"
definition LDM_DEVICE_ATTRIBUTE_BOOT_VGA :: LdmDeviceAttribute where
  "LDM_DEVICE_ATTRIBUTE_BOOT_VGA = push_bit 0 1"
definition LDM_DEVICE_ATTRIBUTE_INTERFACE :: LdmDeviceAttribute where
  "LDM_DEVICE_ATTRIBUTE_INTERFACE = push_bit 1 1"

text \<open>
  Modelled from the spec: \<open>LDM_DEVICE_ATTRIBUTE_ANY\<close>, which device.c returns from
  \<open>ldm_device_get_attributes\<close> on a \<open>NULL\<close> device, is not declared in the device.h
  of the repository (it declares \<open>LDM_DEVICE_ATTRIBUTE_NONE = 0\<close>). The spec gives
  \<open>ANY\<close>/\<open>NONE\<close> the value 0.
\<close>

definition LDM_DEVICE_ATTRIBUTE_ANY :: LdmDeviceAttribute where "LDM_DEVICE_ATTRIBUTE_ANY = 0"

subsection \<open>The device structure\<close>

text \<open>The GType chosen by \<open>ldm_device_new_from_udev\<close>; \<open>LDM_TYPE_DEVICE\<close> is the base class.\<close>

datatype GType =
    LDM_TYPE_DEVICE
  | LDM_TYPE_USB_DEVICE
  | LDM_TYPE_PCI_DEVICE
  | LDM_TYPE_DMI_DEVICE
  | LDM_TYPE_HID_DEVICE
  | LDM_TYPE_BLUETOOTH_DEVICE
  | LDM_TYPE_WIFI_DEVICE

text \<open>The address of an \<open>LdmDevice\<close>, for the parent pointer.\<close>

type_synonym device_ref = nat

text \<open>
  Modelled from the spec: the declaration of \<open>struct _LdmDevice\<close> (ldm-private.h) is
  not among the source files. The fields are the ones device.c reads and writes
  (\<open>self->os.sysfs_path\<close>, \<open>self->id.name\<close>, \<open>self->tree.kids\<close>, ...), with the types of
  the data model of the spec; \<open>id\<close> is called \<open>ident\<close>, and the two fields of \<open>tree\<close>
  are fields of the device itself.
\<close>

record ldm_os =
  sysfs_path :: "string option"
  modalias :: "string option"
  hwdb_info :: "(string, string) fmap"
  devtype :: LdmDeviceType
  attributes :: LdmDeviceAttribute

record ldm_id =
  name :: "string option"
  vendor :: "string option"
  product_id :: gint
  vendor_id :: gint

datatype LdmDevice =
  LdmDevice (gtype: GType) (os: ldm_os) (ident: ldm_id)
    (parent: "device_ref option") (kids: "(string, LdmDevice) fmap")

text \<open>Assignments to one group of fields, \<open>self->os.x = v\<close> and the like.\<close>

primrec os_update :: "(ldm_os \<Rightarrow> ldm_os) \<Rightarrow> LdmDevice \<Rightarrow> LdmDevice" where
  "os_update f (LdmDevice t os_info id_info p ks) = LdmDevice t (f os_info) id_info p ks"

primrec ident_update :: "(ldm_id \<Rightarrow> ldm_id) \<Rightarrow> LdmDevice \<Rightarrow> LdmDevice" where
  "ident_update f (LdmDevice t os_info id_info p ks) = LdmDevice t os_info (f id_info) p ks"

primrec parent_update :: "(device_ref option \<Rightarrow> device_ref option) \<Rightarrow> LdmDevice \<Rightarrow> LdmDevice" where
  "parent_update f (LdmDevice t os_info id_info p ks) = LdmDevice t os_info id_info (f p) ks"

primrec kids_update ::
  "((string, LdmDevice) fmap \<Rightarrow> (string, LdmDevice) fmap) \<Rightarrow> LdmDevice \<Rightarrow> LdmDevice" where
  "kids_update f (LdmDevice t os_info id_info p ks) = LdmDevice t os_info id_info p (f ks)"

text \<open>
  Reading through a \<open>NULL\<close> pointer (\<open>strcmp\<close> inside \<open>g_str_equal\<close>, \<open>g_str_hash\<close> on
  a \<open>NULL\<close> key) is undefined behaviour in C and a segmentation fault in practice. The
  model makes it a value: such a call produces no result.
\<close>

datatype fault = NullDereference

subsection \<open>Read accessors\<close>

text \<open>
  Every accessor starts with \<open>g_return_val_if_fail(self != NULL, dflt)\<close>: on a \<open>NULL\<close>
  device a warning is logged and \<open>dflt\<close> is returned.
\<close>

definition ldm_device_get_modalias :: "LdmDevice option \<Rightarrow> string option" where
  "ldm_device_get_modalias self =
     (case self of None \<Rightarrow> None | Some d \<Rightarrow> modalias (os d))"

definition ldm_device_get_name :: "LdmDevice option \<Rightarrow> string option" where
  "ldm_device_get_name self =
     (case self of None \<Rightarrow> None | Some d \<Rightarrow> name (ident d))"

definition ldm_device_get_path :: "LdmDevice option \<Rightarrow> string option" where
  "ldm_device_get_path self =
     (case self of None \<Rightarrow> None | Some d \<Rightarrow> sysfs_path (os d))"

definition ldm_device_get_product_id :: "LdmDevice option \<Rightarrow> gint" where
  "ldm_device_get_product_id self =
     (case self of None \<Rightarrow> 0 | Some d \<Rightarrow> product_id (ident d))"

definition ldm_device_get_vendor :: "LdmDevice option \<Rightarrow> string option" where
  "ldm_device_get_vendor self =
     (case self of None \<Rightarrow> None | Some d \<Rightarrow> vendor (ident d))"

definition ldm_device_get_vendor_id :: "LdmDevice option \<Rightarrow> gint" where
  "ldm_device_get_vendor_id self =
     (case self of None \<Rightarrow> 0 | Some d \<Rightarrow> vendor_id (ident d))"

definition ldm_device_get_device_type :: "LdmDevice option \<Rightarrow> LdmDeviceType" where
  "ldm_device_get_device_type self =
     (case self of None \<Rightarrow> LDM_DEVICE_TYPE_ANY | Some d \<Rightarrow> devtype (os d))"

definition ldm_device_get_attributes :: "LdmDevice option \<Rightarrow> LdmDeviceAttribute" where
  "ldm_device_get_attributes self =
     (case self of None \<Rightarrow> LDM_DEVICE_ATTRIBUTE_ANY | Some d \<Rightarrow> attributes (os d))"

definition ldm_device_get_parent :: "LdmDevice option \<Rightarrow> device_ref option" where
  "ldm_device_get_parent self =
     (case self of None \<Rightarrow> None | Some d \<Rightarrow> parent d)"

subsection \<open>Recursive queries\<close>

text \<open>
  \<open>ldm_device_has_type\<close>: the device's own bitmask is tested first; then the loop over
  \<open>self->tree.kids\<close> calls the function on every stored child and returns \<open>TRUE\<close> at the
  first one that answers \<open>TRUE\<close>, and \<open>FALSE\<close> once the table is exhausted. Whatever the
  order of the iteration, that is: some stored child answers \<open>TRUE\<close>. The recursion ends
  because a stored child is a smaller tree than the device that stores it.
\<close>

function ldm_device_has_type :: "LdmDevice option \<Rightarrow> LdmDeviceType \<Rightarrow> bool" where
  "ldm_device_has_type None msk = False"
| "ldm_device_has_type (Some self) msk =
     (if devtype (os self) AND msk = msk then True
      else (\<exists>child \<in> fmran' (kids self). ldm_device_has_type (Some child) msk))"
  by pat_completeness auto

termination
proof (relation "measure (\<lambda>(self, msk). size_option size self)")
  fix self :: LdmDevice and msk :: LdmDeviceType and child :: LdmDevice
  assume "child \<in> fmran' (kids self)"
  then obtain k where "fmlookup (kids self) k = Some child"
    by (auto simp: fmlookup_ran'_iff)
  then have "(k, child) \<in> fset (fset_of_fmap (kids self))"
    by (simp add: fset_of_fmap_iff')
  from member_le_sum [OF this, of "\<lambda>p. Suc (size (snd p))"]
  have "size child < size self"
    by (cases self) (simp add: case_prod_beta)
  then show "((Some child, msk), (Some self, msk))
      \<in> measure (\<lambda>(self, msk). size_option size self)"
    by simp
qed simp

declare ldm_device_has_type.simps [simp del]

text \<open>
  \<open>ldm_device_has_attribute\<close>: the device's own attributes are tested; the loop over
  the children calls \<open>ldm_device_has_type\<close> (not \<open>ldm_device_has_attribute\<close>) with the
  attribute mask.
\<close>

definition ldm_device_has_attribute :: "LdmDevice option \<Rightarrow> LdmDeviceAttribute \<Rightarrow> bool" where
  "ldm_device_has_attribute self msk =
     (case self of
        None \<Rightarrow> False
      | Some d \<Rightarrow>
          (if attributes (os d) AND msk = msk then True
           else (\<exists>child \<in> fmran' (kids d). ldm_device_has_type (Some child) msk)))"

subsection \<open>Children\<close>

text \<open>
  The mutators are \<open>void\<close> functions that change \<open>self->tree.kids\<close> in place; the model
  returns the device afterwards. \<open>g_hash_table_replace\<close>, \<open>g_hash_table_remove\<close> and
  \<open>g_hash_table_lookup\<close> hash their key with \<open>g_str_hash\<close>, which reads it.
\<close>

definition ldm_device_add_child ::
  "LdmDevice option \<Rightarrow> LdmDevice option \<Rightarrow> fault + LdmDevice option" where
  "ldm_device_add_child self child =
     (case self of
        None \<Rightarrow> Inr None
      | Some d \<Rightarrow>
          (case (ldm_device_get_path child, child) of
             (Some id', Some c) \<Rightarrow> Inr (Some (kids_update (fmupd id' c) d))
           | _ \<Rightarrow> Inl NullDereference))"

definition ldm_device_remove_child_by_path ::
  "LdmDevice option \<Rightarrow> string option \<Rightarrow> fault + LdmDevice option" where
  "ldm_device_remove_child_by_path self path =
     (case self of
        None \<Rightarrow> Inr None
      | Some d \<Rightarrow>
          (case path of
             None \<Rightarrow> Inl NullDereference
           | Some p \<Rightarrow> Inr (Some (kids_update (fmdrop p) d))))"

definition ldm_device_remove_child ::
  "LdmDevice option \<Rightarrow> LdmDevice option \<Rightarrow> fault + LdmDevice option" where
  "ldm_device_remove_child self child =
     (case self of
        None \<Rightarrow> Inr None
      | Some d \<Rightarrow> ldm_device_remove_child_by_path (Some d) (ldm_device_get_path child))"

definition ldm_device_get_child_by_path ::
  "LdmDevice option \<Rightarrow> string option \<Rightarrow> fault + LdmDevice option" where
  "ldm_device_get_child_by_path self path =
     (case self of
        None \<Rightarrow> Inr None
      | Some d \<Rightarrow>
          (case path of
             None \<Rightarrow> Inl NullDereference
           | Some p \<Rightarrow> Inr (fmlookup (kids d) p)))"

text \<open>\<open>ldm_device_get_children\<close>: the values of the table, in no particular order.\<close>

definition ldm_device_get_children :: "LdmDevice option \<Rightarrow> LdmDevice fset" where
  "ldm_device_get_children self =
     (case self of None \<Rightarrow> {||} | Some d \<Rightarrow> fmran (kids d))"

text \<open>
  What becomes of a node that the children table lets go of. The table was created with
  \<open>g_object_unref\<close> as its value destructor (\<open>ldm_device_init\<close>), so
  \<open>g_hash_table_replace\<close> and \<open>g_hash_table_remove\<close> call \<open>g_object_unref\<close> on the value
  that was stored under the key. \<open>g_object_unref\<close> drops one reference and writes no
  field of the device. Reference counts are not modelled; whether somebody else (the
  caller, say) still holds a reference is the parameter \<open>other_refs\<close>: if so the node
  lives on as it is, if not \<open>ldm_device_dispose\<close> runs, the object is freed and no node
  remains.
\<close>

definition g_object_unref :: "bool \<Rightarrow> LdmDevice \<Rightarrow> LdmDevice option" where
  "g_object_unref other_refs obj = (if other_refs then Some obj else None)"

text \<open>
  The node detached by each mutator, as it is after the call: the second part of the
  state the call leaves behind, next to the device itself. None of the three functions
  writes to it; in particular \<open>ldm_device_remove_child_by_path\<close> has no statement that
  unsets its parent.
\<close>

definition ldm_device_add_child_released ::
  "bool \<Rightarrow> LdmDevice option \<Rightarrow> LdmDevice option \<Rightarrow> fault + LdmDevice option" where
  "ldm_device_add_child_released other_refs self child =
     (case self of
        None \<Rightarrow> Inr None
      | Some d \<Rightarrow>
          (case (ldm_device_get_path child, child) of
             (Some id', Some c) \<Rightarrow>
               Inr (case fmlookup (kids d) id' of
                      None \<Rightarrow> None
                    | Some stored \<Rightarrow> g_object_unref other_refs stored)
           | _ \<Rightarrow> Inl NullDereference))"

definition ldm_device_remove_child_by_path_released ::
  "bool \<Rightarrow> LdmDevice option \<Rightarrow> string option \<Rightarrow> fault + LdmDevice option" where
  "ldm_device_remove_child_by_path_released other_refs self path =
     (case self of
        None \<Rightarrow> Inr None
      | Some d \<Rightarrow>
          (case path of
             None \<Rightarrow> Inl NullDereference
           | Some p \<Rightarrow>
               Inr (case fmlookup (kids d) p of
                      None \<Rightarrow> None
                    | Some stored \<Rightarrow> g_object_unref other_refs stored)))"

definition ldm_device_remove_child_released ::
  "bool \<Rightarrow> LdmDevice option \<Rightarrow> LdmDevice option \<Rightarrow> fault + LdmDevice option" where
  "ldm_device_remove_child_released other_refs self child =
     (case self of
        None \<Rightarrow> Inr None
      | Some d \<Rightarrow>
          ldm_device_remove_child_by_path_released other_refs (Some d)
            (ldm_device_get_path child))"

subsection \<open>Construction from a udev device\<close>

text \<open>
  What device.c asks of libudev: the subsystem, the sysfs path (\<open>const char *\<close>, may be
  \<open>NULL\<close>) and the sysfs attributes of the raw device; and the hwdb property list, whose
  entries carry a name and a value.
\<close>

record udev_device =
  udev_device_get_subsystem :: "string option"
  udev_device_get_syspath :: "string option"
  udev_device_get_sysattr_value :: "string \<Rightarrow> string option"

type_synonym udev_list = "(string \<times> string) list"

text \<open>
  The subclasses of \<open>LdmDevice\<close> (usb-device.c, pci-device.c, dmi-device.c,
  hid-device.c, bluetooth-device.c, wifi-device.c) are not among the source files. What
  \<open>ldm_device_new_from_udev\<close> runs of them is a parameter of the model: the instance
  initialiser of the subclass, which \<open>g_object_new\<close> runs after \<open>ldm_device_init\<close>, and
  the four \<open>init_private\<close> functions that are called by name. They receive the device
  and may write any of its fields.
\<close>

record variant_hooks =
  instance_init :: "GType \<Rightarrow> LdmDevice \<Rightarrow> LdmDevice"
  ldm_pci_device_init_private :: "LdmDevice \<Rightarrow> udev_device \<Rightarrow> LdmDevice"
  ldm_usb_device_init_private :: "LdmDevice \<Rightarrow> udev_device \<Rightarrow> LdmDevice"
  ldm_dmi_device_init_private :: "LdmDevice \<Rightarrow> udev_device \<Rightarrow> LdmDevice"
  ldm_bluetooth_device_init_private :: "LdmDevice \<Rightarrow> udev_device \<Rightarrow> LdmDevice"

text \<open>
  \<open>ldm_device_init\<close> on the zero-filled instance GObject allocates: every pointer
  \<open>NULL\<close>, every number 0, and the two hash tables created empty.
\<close>

definition ldm_device_init :: "GType \<Rightarrow> LdmDevice" where
  "ldm_device_init t =
     LdmDevice t
       \<lparr>sysfs_path = None, modalias = None, hwdb_info = fmempty, devtype = 0, attributes = 0\<rparr>
       \<lparr>name = None, vendor = None, product_id = 0, vendor_id = 0\<rparr>
       None fmempty"

text \<open>
  \<open>g_object_new(special_type, "parent", parent, NULL)\<close>: the instance initialisers run
  from the base class down, then the construct property is set by
  \<open>ldm_device_set_property\<close> (\<open>self->tree.parent = g_value_get_pointer(value)\<close>).
\<close>

definition g_object_new :: "variant_hooks \<Rightarrow> GType \<Rightarrow> device_ref option \<Rightarrow> LdmDevice" where
  "g_object_new hooks special_type parent_ptr =
     (let self = ldm_device_init special_type;
          self = (if special_type = LDM_TYPE_DEVICE then self
                  else instance_init hooks special_type self)
      in parent_update (\<lambda>_. parent_ptr) self)"

text \<open>
  Lines 397-413: the chain of \<open>g_str_equal(subsystem, "...")\<close>. \<open>g_str_equal\<close> is
  \<open>strcmp\<close>: with a \<open>NULL\<close> subsystem the first comparison reads through \<open>NULL\<close>.
\<close>

definition new_from_udev_special_type :: "string option \<Rightarrow> fault + GType" where
  "new_from_udev_special_type subsystem =
     (case subsystem of
        None \<Rightarrow> Inl NullDereference
      | Some s \<Rightarrow>
          Inr (if s = ''usb'' then LDM_TYPE_USB_DEVICE
               else if s = ''pci'' then LDM_TYPE_PCI_DEVICE
               else if s = ''dmi'' then LDM_TYPE_DMI_DEVICE
               else if s = ''hid'' then LDM_TYPE_HID_DEVICE
               else if s = ''bluetooth'' then LDM_TYPE_BLUETOOTH_DEVICE
               else if s = ''ieee80211'' then LDM_TYPE_WIFI_DEVICE
               else LDM_TYPE_DEVICE))"

text \<open>Lines 415-422: allocation, sysfs path and modalias.\<close>

definition new_from_udev_basics ::
  "variant_hooks \<Rightarrow> GType \<Rightarrow> device_ref option \<Rightarrow> udev_device \<Rightarrow> LdmDevice" where
  "new_from_udev_basics hooks special_type parent_ptr device =
     (let self = g_object_new hooks special_type parent_ptr;
          self = os_update (\<lambda>r. r\<lparr>sysfs_path := udev_device_get_syspath device\<rparr>) self;
          sysattr = udev_device_get_sysattr_value device ''modalias''
      in (case sysattr of
            None \<Rightarrow> self
          | Some a \<Rightarrow> os_update (\<lambda>r. r\<lparr>modalias := Some a\<rparr>) self))"

text \<open>
  Lines 424-459: without a property list the block is skipped (\<open>goto post_hwdb\<close>).
  Otherwise every entry is inserted into \<open>hwdb_info\<close> in list order
  (\<open>g_hash_table_insert\<close>: a later entry with the same name replaces the earlier value),
  then vendor and name are looked up in the table.
\<close>

definition new_from_udev_hwdb :: "LdmDevice \<Rightarrow> udev_list option \<Rightarrow> LdmDevice" where
  "new_from_udev_hwdb self properties =
     (case properties of
        None \<Rightarrow> self
      | Some entries \<Rightarrow>
          (let self = os_update
                 (\<lambda>r. r\<lparr>hwdb_info := foldl (\<lambda>h (prop_id, v). fmupd prop_id v h) (hwdb_info r) entries\<rparr>)
                 self;
               lookup = fmlookup (hwdb_info (os self)) ''ID_VENDOR_FROM_DATABASE'';
               lookup = (if lookup = None then fmlookup (hwdb_info (os self)) ''ID_VENDOR''
                         else lookup);
               self = (if lookup \<noteq> None then ident_update (\<lambda>r. r\<lparr>vendor := lookup\<rparr>) self
                       else self);
               lookup = fmlookup (hwdb_info (os self)) ''ID_MODEL_FROM_DATABASE'';
               lookup = (if lookup = None then fmlookup (hwdb_info (os self)) ''ID_MODEL''
                         else lookup);
               self = (if lookup \<noteq> None then ident_update (\<lambda>r. r\<lparr>name := lookup\<rparr>) self
                       else self)
           in self))"

text \<open>Lines 463-471: the initialiser of the variant; HID, WiFi and the base class have none.\<close>

definition new_from_udev_init_private ::
  "variant_hooks \<Rightarrow> GType \<Rightarrow> LdmDevice \<Rightarrow> udev_device \<Rightarrow> LdmDevice" where
  "new_from_udev_init_private hooks special_type self device =
     (if special_type = LDM_TYPE_PCI_DEVICE then ldm_pci_device_init_private hooks self device
      else if special_type = LDM_TYPE_USB_DEVICE then ldm_usb_device_init_private hooks self device
      else if special_type = LDM_TYPE_DMI_DEVICE then ldm_dmi_device_init_private hooks self device
      else if special_type = LDM_TYPE_BLUETOOTH_DEVICE
        then ldm_bluetooth_device_init_private hooks self device
      else self)"

text \<open>
  \<open>printf\<close>'s \<open>%x\<close>: the \<open>int\<close> argument read as \<open>unsigned int\<close>, in lower-case
  hexadecimal without padding.
\<close>

definition hex_digit :: "nat \<Rightarrow> char" where
  "hex_digit d = ''0123456789abcdef'' ! d"

fun hex_of_nat :: "nat \<Rightarrow> string" where
  "hex_of_nat n =
     (if n < 16 then [hex_digit n] else hex_of_nat (n div 16) @ [hex_digit (n mod 16)])"

declare hex_of_nat.simps [simp del]

definition printf_x :: "gint \<Rightarrow> string" where
  "printf_x w = hex_of_nat (unat w)"

text \<open>Lines 473-475: \<open>g_strdup_printf("Device %x", self->id.product_id)\<close> for a missing name.\<close>

definition new_from_udev_fallback_name :: "LdmDevice \<Rightarrow> LdmDevice" where
  "new_from_udev_fallback_name self =
     (if name (ident self) = None
      then ident_update (\<lambda>r. r\<lparr>name := Some (''Device '' @ printf_x (product_id r))\<rparr>) self
      else self)"

definition ldm_device_new_from_udev ::
  "variant_hooks \<Rightarrow> device_ref option \<Rightarrow> udev_device \<Rightarrow> udev_list option \<Rightarrow> fault + LdmDevice" where
  "ldm_device_new_from_udev hooks parent_ptr device properties =
     (case new_from_udev_special_type (udev_device_get_subsystem device) of
        Inl e \<Rightarrow> Inl e
      | Inr special_type \<Rightarrow>
          (let self = new_from_udev_basics hooks special_type parent_ptr device;
               self = new_from_udev_hwdb self properties;
               self = new_from_udev_init_private hooks special_type self device;
               self = new_from_udev_fallback_name self
           in Inr self))"

subsection \<open>Notions used to state the properties\<close>

text \<open>
  The nodes of the tree rooted at a device: the device itself and every node of the
  subtrees stored in its children table.
\<close>

function subtree_nodes :: "LdmDevice \<Rightarrow> LdmDevice set" where
  "subtree_nodes d = insert d (\<Union>c \<in> fmran' (kids d). subtree_nodes c)"
  by pat_completeness auto

termination
proof (relation "measure size")
  fix d c :: LdmDevice
  assume "c \<in> fmran' (kids d)"
  then obtain k where "fmlookup (kids d) k = Some c"
    by (auto simp: fmlookup_ran'_iff)
  then have "(k, c) \<in> fset (fset_of_fmap (kids d))"
    by (simp add: fset_of_fmap_iff')
  from member_le_sum [OF this, of "\<lambda>p. Suc (size (snd p))"]
  have "size c < size d"
    by (cases d) (simp add: case_prod_beta)
  then show "(c, d) \<in> measure size"
    by simp
qed simp

declare subtree_nodes.simps [simp del]

text \<open>
  The node found by following a list of keys from a device, that is by repeated
  \<open>ldm_device_get_child_by_path\<close>. A node of the tree is identified by its position.
\<close>

fun node_at :: "LdmDevice \<Rightarrow> string list \<Rightarrow> LdmDevice option" where
  "node_at d [] = Some d"
| "node_at d (k # ks) = (case fmlookup (kids d) k of None \<Rightarrow> None | Some c \<Rightarrow> node_at c ks)"

text \<open>
  The loop of \<open>ldm_device_has_type\<close> and \<open>ldm_device_has_attribute\<close> over the children
  in one order of iteration: \<open>TRUE\<close> at the first child that has the type.
\<close>

fun walk_children :: "LdmDevice list \<Rightarrow> LdmDeviceType \<Rightarrow> bool" where
  "walk_children [] msk = False"
| "walk_children (child # rest) msk =
     (if ldm_device_has_type (Some child) msk then True else walk_children rest msk)"

text \<open>
  Every child is stored under its own sysfs path. \<open>ldm_device_add_child\<close> is the only
  function that inserts into the table, under the path of the child, and no function
  changes the path of a device (lemmas \<open>init_keyed_by_path\<close>,
  \<open>add_child_keeps_keyed_by_path\<close> and \<open>remove_keeps_keyed_by_path\<close>).
\<close>

definition kids_keyed_by_path :: "LdmDevice \<Rightarrow> bool" where
  "kids_keyed_by_path d = fmpred (\<lambda>k c. sysfs_path (os c) = Some k) (kids d)"

text \<open>
  What the properties ask of the absent variant initialisers: the GType of an instance
  is fixed by \<open>g_object_new\<close>, and \<open>parent\<close> is a construct-only property.
\<close>

definition hooks_keep_gtype :: "variant_hooks \<Rightarrow> bool" where
  "hooks_keep_gtype hooks =
     (\<forall>t d dev. gtype (instance_init hooks t d) = gtype d \<and>
              gtype (ldm_pci_device_init_private hooks d dev) = gtype d \<and>
              gtype (ldm_usb_device_init_private hooks d dev) = gtype d \<and>
              gtype (ldm_dmi_device_init_private hooks d dev) = gtype d \<and>
              gtype (ldm_bluetooth_device_init_private hooks d dev) = gtype d)"

definition hooks_keep_parent :: "variant_hooks \<Rightarrow> bool" where
  "hooks_keep_parent hooks =
     (\<forall>d dev. parent (ldm_pci_device_init_private hooks d dev) = parent d \<and>
              parent (ldm_usb_device_init_private hooks d dev) = parent d \<and>
              parent (ldm_dmi_device_init_private hooks d dev) = parent d \<and>
              parent (ldm_bluetooth_device_init_private hooks d dev) = parent d)"

text \<open>The six subsystem names with a variant of their own.\<close>

definition known_subsystems :: "string set" where
  "known_subsystems = {''usb'', ''pci'', ''dmi'', ''hid'', ''bluetooth'', ''ieee80211''}"

text \<open>
  The rule of the spec for vendor and name: "prefer key A; else key B; else leave unset",
  over a table of properties.
\<close>

definition prefer_key :: "(string \<Rightarrow> string option) \<Rightarrow> string \<Rightarrow> string \<Rightarrow> string option" where
  "prefer_key tbl preferred fallback =
     (case tbl preferred of Some v \<Rightarrow> Some v | None \<Rightarrow> tbl fallback)"

text \<open>Reading a hexadecimal numeral back, to say what \<open>printf_x\<close> prints.\<close>

definition hex_digit_value :: "char \<Rightarrow> nat" where
  "hex_digit_value c = length (takeWhile (\<lambda>x. x \<noteq> c) ''0123456789abcdef'')"

definition hex_value :: "string \<Rightarrow> nat" where
  "hex_value cs = foldl (\<lambda>acc c. 16 * acc + hex_digit_value c) 0 cs"

subsection \<open>Example data\<close>

text \<open>
  The tree of section 8 of the spec: a root of type \<open>PCI|GPU\<close> with one child of type
  \<open>HID\<close>. The child carries the attribute \<open>BOOT_VGA\<close>, the root none. A second device
  with the sysfs path of the child replaces it in the examples.
\<close>

definition example_child :: LdmDevice where
  "example_child =
     LdmDevice LDM_TYPE_HID_DEVICE
       \<lparr>sysfs_path = Some ''/sys/devices/pci0/hid0'', modalias = None, hwdb_info = fmempty,
        devtype = LDM_DEVICE_TYPE_HID, attributes = LDM_DEVICE_ATTRIBUTE_BOOT_VGA\<rparr>
       \<lparr>name = Some ''Mouse'', vendor = None, product_id = 7, vendor_id = 0\<rparr>
       (Some 4096) fmempty"

definition example_root :: LdmDevice where
  "example_root =
     LdmDevice LDM_TYPE_PCI_DEVICE
       \<lparr>sysfs_path = Some ''/sys/devices/pci0'', modalias = None, hwdb_info = fmempty,
        devtype = LDM_DEVICE_TYPE_PCI OR LDM_DEVICE_TYPE_GPU, attributes = 0\<rparr>
       \<lparr>name = Some ''Card'', vendor = None, product_id = 16, vendor_id = 0\<rparr>
       None (fmupd ''/sys/devices/pci0/hid0'' example_child fmempty)"

definition example_replacement :: LdmDevice where
  "example_replacement =
     LdmDevice LDM_TYPE_HID_DEVICE
       \<lparr>sysfs_path = Some ''/sys/devices/pci0/hid0'', modalias = None, hwdb_info = fmempty,
        devtype = LDM_DEVICE_TYPE_HID, attributes = 0\<rparr>
       \<lparr>name = Some ''Keyboard'', vendor = None, product_id = 8, vendor_id = 0\<rparr>
       (Some 4096) fmempty"

text \<open>
  Variant initialisers for the examples: the PCI one sets the ids and the type bit, the
  USB one the type bit, the others nothing.
\<close>

definition example_hooks :: variant_hooks where
  "example_hooks =
     \<lparr>instance_init = (\<lambda>t d. d),
      ldm_pci_device_init_private =
        (\<lambda>d dev. ident_update (\<lambda>r. r\<lparr>product_id := 0x10, vendor_id := 0x8086\<rparr>)
                   (os_update (\<lambda>r. r\<lparr>devtype := devtype r OR LDM_DEVICE_TYPE_PCI\<rparr>) d)),
      ldm_usb_device_init_private =
        (\<lambda>d dev. os_update (\<lambda>r. r\<lparr>devtype := devtype r OR LDM_DEVICE_TYPE_USB\<rparr>) d),
      ldm_dmi_device_init_private = (\<lambda>d dev. d),
      ldm_bluetooth_device_init_private = (\<lambda>d dev. d)\<rparr>"

definition example_udev :: "string option \<Rightarrow> udev_device" where
  "example_udev subsystem =
     \<lparr>udev_device_get_subsystem = subsystem,
      udev_device_get_syspath = Some ''/sys/devices/x'',
      udev_device_get_sysattr_value =
        (\<lambda>a. if a = ''modalias'' then Some ''pci:v00008086'' else None)\<rparr>"

definition example_properties :: udev_list where
  "example_properties =
     [(''ID_MODEL'', ''Foo''), (''ID_VENDOR'', ''Acme''),
      (''ID_VENDOR_FROM_DATABASE'', ''Acme Corp'')]"

section \<open>Properties\<close>

subsection \<open>Auxiliary facts\<close>

lemma os_os_update [simp]: "os (os_update f d) = f (os d)"
  by (cases d) simp

lemma ident_os_update [simp]: "ident (os_update f d) = ident d"
  by (cases d) simp

lemma gtype_os_update [simp]: "gtype (os_update f d) = gtype d"
  by (cases d) simp

lemma parent_os_update [simp]: "parent (os_update f d) = parent d"
  by (cases d) simp

lemma kids_os_update [simp]: "kids (os_update f d) = kids d"
  by (cases d) simp

lemma os_ident_update [simp]: "os (ident_update f d) = os d"
  by (cases d) simp

lemma ident_ident_update [simp]: "ident (ident_update f d) = f (ident d)"
  by (cases d) simp

lemma gtype_ident_update [simp]: "gtype (ident_update f d) = gtype d"
  by (cases d) simp

lemma parent_ident_update [simp]: "parent (ident_update f d) = parent d"
  by (cases d) simp

lemma kids_ident_update [simp]: "kids (ident_update f d) = kids d"
  by (cases d) simp

lemma os_parent_update [simp]: "os (parent_update f d) = os d"
  by (cases d) simp

lemma ident_parent_update [simp]: "ident (parent_update f d) = ident d"
  by (cases d) simp

lemma gtype_parent_update [simp]: "gtype (parent_update f d) = gtype d"
  by (cases d) simp

lemma parent_parent_update [simp]: "parent (parent_update f d) = f (parent d)"
  by (cases d) simp

lemma kids_parent_update [simp]: "kids (parent_update f d) = kids d"
  by (cases d) simp

lemma os_kids_update [simp]: "os (kids_update f d) = os d"
  by (cases d) simp

lemma ident_kids_update [simp]: "ident (kids_update f d) = ident d"
  by (cases d) simp

lemma gtype_kids_update [simp]: "gtype (kids_update f d) = gtype d"
  by (cases d) simp

lemma parent_kids_update [simp]: "parent (kids_update f d) = parent d"
  by (cases d) simp

lemma kids_kids_update [simp]: "kids (kids_update f d) = f (kids d)"
  by (cases d) simp

lemma kids_update_idle: "f (kids d) = kids d \<Longrightarrow> kids_update f d = d"
  by (cases d) simp

lemma fmran'_fmempty: "fmran' fmempty = {}"
  by (auto simp: fmlookup_ran'_iff)

lemma fmran'_fmupd: "fmran' (fmupd k v m) = insert v (fmran' (fmdrop k m))"
  by (auto simp: fmlookup_ran'_iff split: if_splits)

lemma has_type_Some:
  "ldm_device_has_type (Some d) msk \<longleftrightarrow>
     devtype (os d) AND msk = msk \<or> (\<exists>c \<in> fmran' (kids d). ldm_device_has_type (Some c) msk)"
  by (simp add: ldm_device_has_type.simps)

text \<open>The answer of the loop does not depend on the order in which the table is walked.\<close>

lemma walk_children_iff:
  "walk_children xs msk \<longleftrightarrow> (\<exists>c \<in> set xs. ldm_device_has_type (Some c) msk)"
  by (induction xs) auto

lemma has_type_any_order:
  assumes "set xs = fmran' (kids self)"
  shows "ldm_device_has_type (Some self) msk =
     (if devtype (os self) AND msk = msk then True else walk_children xs msk)"
  by (subst has_type_Some) (simp add: walk_children_iff assms)

lemma has_attribute_any_order:
  assumes "set xs = fmran' (kids self)"
  shows "ldm_device_has_attribute (Some self) msk =
     (if attributes (os self) AND msk = msk then True else walk_children xs msk)"
  by (simp add: ldm_device_has_attribute_def walk_children_iff assms)

lemma has_type_subtree:
  "ldm_device_has_type (Some node) msk \<longleftrightarrow>
     (\<exists>n \<in> subtree_nodes node. devtype (os n) AND msk = msk)"
proof (induction node rule: subtree_nodes.induct)
  case (1 d)
  have "ldm_device_has_type (Some d) msk \<longleftrightarrow>
      devtype (os d) AND msk = msk \<or>
      (\<exists>c \<in> fmran' (kids d). \<exists>n \<in> subtree_nodes c. devtype (os n) AND msk = msk)"
    by (subst has_type_Some) (simp add: 1)
  also have "\<dots> \<longleftrightarrow> (\<exists>n \<in> subtree_nodes d. devtype (os n) AND msk = msk)"
    by (subst (2) subtree_nodes.simps) auto
  finally show ?case .
qed

text \<open>The nodes of the subtree are the nodes at some position below the device.\<close>

lemma subtree_nodes_iff_node_at: "n \<in> subtree_nodes d \<longleftrightarrow> (\<exists>ks. node_at d ks = Some n)"
proof (induction d rule: subtree_nodes.induct)
  case (1 d)
  show ?case
  proof
    assume "n \<in> subtree_nodes d"
    then consider "n = d" | c where "c \<in> fmran' (kids d)" "n \<in> subtree_nodes c"
      by (subst (asm) subtree_nodes.simps) auto
    then show "\<exists>ks. node_at d ks = Some n"
    proof cases
      case 1
      then have "node_at d [] = Some n" by simp
      then show ?thesis ..
    next
      case 2
      from 2(1) obtain k where k: "fmlookup (kids d) k = Some c"
        by (auto simp: fmlookup_ran'_iff)
      from "1.IH" [OF 2(1)] 2(2) obtain ks where "node_at c ks = Some n" by auto
      with k have "node_at d (k # ks) = Some n" by simp
      then show ?thesis ..
    qed
  next
    assume "\<exists>ks. node_at d ks = Some n"
    then obtain ks where ks: "node_at d ks = Some n" ..
    show "n \<in> subtree_nodes d"
    proof (cases ks)
      case Nil
      with ks show ?thesis by (subst subtree_nodes.simps) simp
    next
      case (Cons k ks')
      with ks obtain c where c: "fmlookup (kids d) k = Some c" "node_at c ks' = Some n"
        by (auto split: option.splits)
      from c(1) have mem: "c \<in> fmran' (kids d)" by (rule fmran'I)
      from "1.IH" [OF mem] c(2) have "n \<in> subtree_nodes c" by auto
      with mem show ?thesis by (subst subtree_nodes.simps) auto
    qed
  qed
qed

text \<open>The example tree.\<close>

lemma subtree_nodes_example_child: "subtree_nodes example_child = {example_child}"
  by (subst subtree_nodes.simps) (simp add: example_child_def fmran'_fmempty)

lemma subtree_nodes_example_root: "subtree_nodes example_root = {example_root, example_child}"
  by (subst subtree_nodes.simps)
     (simp add: example_root_def fmran'_fmupd fmran'_fmempty
        subtree_nodes_example_child [unfolded example_root_def])

lemma os_example_child:
  "devtype (os example_child) = 4" "attributes (os example_child) = 1"
  by (simp_all add: example_child_def LDM_DEVICE_TYPE_HID_def LDM_DEVICE_ATTRIBUTE_BOOT_VGA_def)

lemma os_example_root:
  "devtype (os example_root) = 18" "attributes (os example_root) = 0"
  by (simp_all add: example_root_def LDM_DEVICE_TYPE_PCI_def LDM_DEVICE_TYPE_GPU_def)

lemma kids_example_root:
  "fmran' (kids example_root) = {example_child}" "fmran' (kids example_child) = {}"
  by (simp_all add: example_root_def example_child_def fmran'_fmupd fmran'_fmempty)

lemma example_paths:
  "ldm_device_get_path (Some example_replacement) = Some ''/sys/devices/pci0/hid0''"
  "ldm_device_get_path (Some example_child) = Some ''/sys/devices/pci0/hid0''"
  by (simp_all add: ldm_device_get_path_def example_replacement_def example_child_def)

lemma example_root_lookup:
  "ldm_device_get_child_by_path (Some example_root) (Some ''/sys/devices/pci0/hid0'')
     = Inr (Some example_child)"
  by (simp add: ldm_device_get_child_by_path_def example_root_def)

lemma example_child_ne: "example_child \<noteq> example_replacement"
  by (simp add: example_child_def example_replacement_def)

lemma example_root_keyed: "kids_keyed_by_path example_root"
  by (auto simp: kids_keyed_by_path_def example_root_def example_child_def intro!: fmpred_upd)

lemma example_hooks_keep_parent: "hooks_keep_parent example_hooks"
  by (simp add: hooks_keep_parent_def example_hooks_def)

lemma example_hooks_keep_gtype: "hooks_keep_gtype example_hooks"
  by (simp add: hooks_keep_gtype_def example_hooks_def)

subsection \<open>Type and attribute queries\<close>

text \<open>
  C1. For every device node and every type mask, \<open>ldm_device_has_type\<close> answers true
  exactly when \<open>(n.devtype & mask) == mask\<close> holds for some node \<open>n\<close> among the node
  itself and the nodes of the subtrees reachable through its children table.
\<close>

theorem has_type_iff_subtree:
  "ldm_device_has_type (Some node) msk \<longleftrightarrow>
     (\<exists>n \<in> subtree_nodes node. devtype (os n) AND msk = msk)"
  by (rule has_type_subtree)

text \<open>
  The example of the spec: the root \<open>PCI|GPU\<close> with a \<open>HID\<close> child has type \<open>HID\<close>,
  and the child does not have type \<open>GPU\<close>.
\<close>

theorem has_type_iff_subtree_witness:
  "ldm_device_has_type (Some example_root) LDM_DEVICE_TYPE_HID \<and>
   \<not> ldm_device_has_type (Some example_child) LDM_DEVICE_TYPE_GPU"
  using has_type_iff_subtree [of example_root LDM_DEVICE_TYPE_HID]
    has_type_iff_subtree [of example_child LDM_DEVICE_TYPE_GPU]
  by (simp add: subtree_nodes_example_root subtree_nodes_example_child
      os_example_child os_example_root LDM_DEVICE_TYPE_HID_def LDM_DEVICE_TYPE_GPU_def)

text \<open>
  C2. For every device node and every attribute mask, \<open>ldm_device_has_attribute\<close>
  answers true exactly when \<open>(node.attributes & mask) == mask\<close> holds for the node
  itself, or \<open>ldm_device_has_type(child, mask)\<close> holds for some child: the children are
  tested with the type predicate, on their \<open>devtype\<close>.
\<close>

theorem has_attribute_iff:
  "ldm_device_has_attribute (Some node) msk \<longleftrightarrow>
     attributes (os node) AND msk = msk \<or>
     (\<exists>child \<in> fmran' (kids node). ldm_device_has_type (Some child) msk)"
  by (simp add: ldm_device_has_attribute_def)

text \<open>
  With the characterisation of \<open>ldm_device_has_type\<close>: below the node itself, it is the
  \<open>devtype\<close> of the descendants that is compared with the attribute mask.
\<close>

lemma has_attribute_descendants:
  "ldm_device_has_attribute (Some node) msk \<longleftrightarrow>
     attributes (os node) AND msk = msk \<or>
     (\<exists>child \<in> fmran' (kids node). \<exists>n \<in> subtree_nodes child. devtype (os n) AND msk = msk)"
  by (simp add: ldm_device_has_attribute_def has_type_subtree)

text \<open>
  The child of the example carries \<open>BOOT_VGA\<close> (attribute bit 0) and has type \<open>HID\<close>
  (type bit 2). Asked for the attribute \<open>BOOT_VGA\<close> the root answers false, although its
  child has it; asked for attribute mask 4, the value of the type \<open>HID\<close>, it answers true.
\<close>

theorem has_attribute_iff_witness:
  "\<not> ldm_device_has_attribute (Some example_root) LDM_DEVICE_ATTRIBUTE_BOOT_VGA \<and>
   ldm_device_has_attribute (Some example_child) LDM_DEVICE_ATTRIBUTE_BOOT_VGA \<and>
   ldm_device_has_attribute (Some example_root) 4"
  using has_attribute_iff [of example_root LDM_DEVICE_ATTRIBUTE_BOOT_VGA]
    has_attribute_iff [of example_child LDM_DEVICE_ATTRIBUTE_BOOT_VGA]
    has_attribute_iff [of example_root 4]
    has_type_subtree [of example_child LDM_DEVICE_ATTRIBUTE_BOOT_VGA]
    has_type_subtree [of example_child 4]
  by (simp add: kids_example_root os_example_child os_example_root
      subtree_nodes_example_child LDM_DEVICE_ATTRIBUTE_BOOT_VGA_def)

text \<open>
  C10. For every device node, \<open>ldm_device_has_type(node, 0)\<close> and
  \<open>ldm_device_has_attribute(node, 0)\<close> are true: \<open>(x & 0) == 0\<close> holds at the node itself.
\<close>

theorem zero_mask_always_matches:
  "ldm_device_has_type (Some node) 0 \<and> ldm_device_has_attribute (Some node) 0"
  by (subst has_type_Some) (simp add: ldm_device_has_attribute_def)

subsection \<open>Accessors on a NULL device\<close>

text \<open>
  C8. Called with a \<open>NULL\<close> device, every read accessor and query returns its default
  instead of failing: the type \<open>ANY\<close> (0), the empty attribute mask, false for the two
  queries, no string for name, vendor, path and modalias, and 0 for the two ids.
\<close>

theorem null_device_defaults:
  "ldm_device_get_device_type None = LDM_DEVICE_TYPE_ANY \<and>
   LDM_DEVICE_TYPE_ANY = 0 \<and>
   ldm_device_get_attributes None = LDM_DEVICE_ATTRIBUTE_ANY \<and>
   LDM_DEVICE_ATTRIBUTE_ANY = 0 \<and>
   ldm_device_has_type None msk = False \<and>
   ldm_device_has_attribute None amsk = False \<and>
   ldm_device_get_name None = None \<and>
   ldm_device_get_vendor None = None \<and>
   ldm_device_get_path None = None \<and>
   ldm_device_get_modalias None = None \<and>
   ldm_device_get_product_id None = 0 \<and>
   ldm_device_get_vendor_id None = 0"
  by (simp add: ldm_device_get_device_type_def LDM_DEVICE_TYPE_ANY_def
      ldm_device_get_attributes_def LDM_DEVICE_ATTRIBUTE_ANY_def
      ldm_device_has_type.simps ldm_device_has_attribute_def
      ldm_device_get_name_def ldm_device_get_vendor_def ldm_device_get_path_def
      ldm_device_get_modalias_def ldm_device_get_product_id_def ldm_device_get_vendor_id_def)

subsection \<open>Adding and removing children\<close>

lemma add_child_Some:
  "sysfs_path (os child) = Some path \<Longrightarrow>
   ldm_device_add_child (Some self) (Some child) = Inr (Some (kids_update (fmupd path child) self))"
  by (simp add: ldm_device_add_child_def ldm_device_get_path_def)

lemma add_child_result:
  assumes "ldm_device_add_child (Some self) child = Inr (Some self')"
  obtains c path where "child = Some c" "sysfs_path (os c) = Some path"
    "self' = kids_update (fmupd path c) self"
  using assms
  by (auto simp: ldm_device_add_child_def ldm_device_get_path_def split: option.splits)

lemma remove_by_path_result:
  assumes "ldm_device_remove_child_by_path (Some self) path = Inr (Some self')"
  obtains p where "path = Some p" "self' = kids_update (fmdrop p) self"
  using assms
  by (auto simp: ldm_device_remove_child_by_path_def split: option.splits)

text \<open>The children table stays keyed by the paths of the children.\<close>

lemma init_keyed_by_path: "kids_keyed_by_path (ldm_device_init t)"
  by (simp add: kids_keyed_by_path_def ldm_device_init_def)

lemma add_child_keeps_keyed_by_path:
  assumes "kids_keyed_by_path self" "ldm_device_add_child (Some self) child = Inr (Some self')"
  shows "kids_keyed_by_path self'"
  using assms(2,1) by (elim add_child_result) (auto simp: kids_keyed_by_path_def)

lemma remove_keeps_keyed_by_path:
  assumes "kids_keyed_by_path self"
    "ldm_device_remove_child_by_path (Some self) path = Inr (Some self')"
  shows "kids_keyed_by_path self'"
  using assms(2,1) by (elim remove_by_path_result) (auto simp: kids_keyed_by_path_def)

lemma subtree_nodes_add:
  "subtree_nodes (kids_update (fmupd path c) self) =
     insert (kids_update (fmupd path c) self)
       (subtree_nodes c \<union> (\<Union>x \<in> fmran' (fmdrop path (kids self)). subtree_nodes x))"
  by (subst subtree_nodes.simps) (simp add: fmran'_fmupd)

text \<open>
  C3. After \<open>ldm_device_add_child(parent, child)\<close>, looking up the sysfs path of the
  child in the parent returns the child, and the call is no error. If a different node
  was stored under that path, it is replaced: it is no longer among the children of the
  parent, under any path; the nodes reachable from the parent are the parent, the
  subtree of the new child and the subtrees stored under the other paths.
\<close>

theorem add_child_then_get_child_by_path:
  assumes "ldm_device_get_path (Some child) = Some path"
  shows "\<exists>self'. ldm_device_add_child (Some self) (Some child) = Inr (Some self') \<and>
           ldm_device_get_child_by_path (Some self') (Some path) = Inr (Some child) \<and>
           (\<forall>old. ldm_device_get_child_by_path (Some self) (Some path) = Inr (Some old) \<and>
                  old \<noteq> child \<and> kids_keyed_by_path self \<longrightarrow>
                  old |\<notin>| ldm_device_get_children (Some self') \<and>
                  (\<forall>q. ldm_device_get_child_by_path (Some self') (Some q) \<noteq> Inr (Some old))) \<and>
           subtree_nodes self' =
             insert self' (subtree_nodes child \<union>
               (\<Union>c \<in> fmran' (fmdrop path (kids self)). subtree_nodes c))"
proof -
  let ?self' = "kids_update (fmupd path child) self"
  from assms have path: "sysfs_path (os child) = Some path"
    by (simp add: ldm_device_get_path_def)
  have add: "ldm_device_add_child (Some self) (Some child) = Inr (Some ?self')"
    by (rule add_child_Some [OF path])
  have get: "ldm_device_get_child_by_path (Some ?self') (Some path) = Inr (Some child)"
    by (simp add: ldm_device_get_child_by_path_def)
  have gone: "old |\<notin>| ldm_device_get_children (Some ?self') \<and>
      (\<forall>q. ldm_device_get_child_by_path (Some ?self') (Some q) \<noteq> Inr (Some old))"
    if old: "ldm_device_get_child_by_path (Some self) (Some path) = Inr (Some old)"
      and ne: "old \<noteq> child" and inv: "kids_keyed_by_path self" for old
  proof -
    from old have "fmlookup (kids self) path = Some old"
      by (simp add: ldm_device_get_child_by_path_def)
    with inv have old_path: "sysfs_path (os old) = Some path"
      by (auto simp: kids_keyed_by_path_def dest: fmpredD)
    have nowhere: "fmlookup (kids ?self') q \<noteq> Some old" for q
    proof
      assume q: "fmlookup (kids ?self') q = Some old"
      show False
      proof (cases "q = path")
        case True
        with q ne show False by simp
      next
        case False
        with q have "fmlookup (kids self) q = Some old" by simp
        with inv have "sysfs_path (os old) = Some q"
          by (auto simp: kids_keyed_by_path_def dest: fmpredD)
        with old_path False show False by simp
      qed
    qed
    then show ?thesis
      by (auto simp: ldm_device_get_children_def ldm_device_get_child_by_path_def
          fmlookup_ran_iff)
  qed
  from add get gone subtree_nodes_add [of path child self] show ?thesis
    by blast
qed

text \<open>
  In the example tree the child is replaced by a different device with the same path.
\<close>

theorem add_child_then_get_child_by_path_witness:
  "ldm_device_get_path (Some example_replacement) = Some ''/sys/devices/pci0/hid0'' \<and>
   ldm_device_get_child_by_path (Some example_root) (Some ''/sys/devices/pci0/hid0'')
     = Inr (Some example_child) \<and>
   example_child \<noteq> example_replacement \<and>
   kids_keyed_by_path example_root \<and>
   (\<exists>self'. ldm_device_add_child (Some example_root) (Some example_replacement)
              = Inr (Some self') \<and>
      ldm_device_get_child_by_path (Some self') (Some ''/sys/devices/pci0/hid0'')
        = Inr (Some example_replacement) \<and>
      example_child |\<notin>| ldm_device_get_children (Some self') \<and>
      (\<forall>q. ldm_device_get_child_by_path (Some self') (Some q) \<noteq> Inr (Some example_child)))"
  using add_child_then_get_child_by_path [OF example_paths(1), of example_root]
    example_paths(1) example_root_lookup example_child_ne example_root_keyed
  by blast

text \<open>
  C9. \<open>ldm_device_remove_child(parent, child)\<close> leaves the tree in the same state as
  \<open>ldm_device_remove_child_by_path(parent, p)\<close> for \<open>p\<close> the sysfs path of \<open>child\<close>.
\<close>

theorem remove_child_is_remove_by_path:
  "ldm_device_remove_child self child =
     ldm_device_remove_child_by_path self (ldm_device_get_path child)"
  by (simp add: ldm_device_remove_child_def ldm_device_remove_child_by_path_def
      split: option.splits)

text \<open>
  C4. For a path that is not a key of the parent's children table,
  \<open>ldm_device_remove_child_by_path\<close> is no error and leaves the parent, its children
  table and every other field, as it was.
\<close>

theorem remove_absent_path_noop:
  assumes "ldm_device_get_child_by_path (Some parent_dev) (Some path) = Inr None"
  shows "ldm_device_remove_child_by_path (Some parent_dev) (Some path) = Inr (Some parent_dev)"
proof -
  from assms have "fmlookup (kids parent_dev) path = None"
    by (simp add: ldm_device_get_child_by_path_def)
  then have "fmdrop path (kids parent_dev) = kids parent_dev"
    by (intro fmdrop_idle') (simp add: fmdom'_notI)
  then show ?thesis
    by (simp add: ldm_device_remove_child_by_path_def kids_update_idle)
qed

theorem remove_absent_path_noop_witness:
  "ldm_device_get_child_by_path (Some example_root) (Some ''nonexistent'') = Inr None \<and>
   ldm_device_remove_child_by_path (Some example_root) (Some ''nonexistent'')
     = Inr (Some example_root)"
proof -
  have absent: "ldm_device_get_child_by_path (Some example_root) (Some ''nonexistent'') = Inr None"
    by (simp add: ldm_device_get_child_by_path_def example_root_def)
  show ?thesis
    using absent remove_absent_path_noop [OF absent] by simp
qed

subsection \<open>The parent link\<close>

lemma parent_basics: "parent (new_from_udev_basics hooks t p device) = p"
  by (simp add: new_from_udev_basics_def g_object_new_def Let_def split: option.splits)

lemma parent_hwdb: "parent (new_from_udev_hwdb d properties) = parent d"
  by (simp add: new_from_udev_hwdb_def Let_def split: option.splits)

lemma parent_init_private:
  "hooks_keep_parent hooks \<Longrightarrow> parent (new_from_udev_init_private hooks t d device) = parent d"
  by (simp add: new_from_udev_init_private_def hooks_keep_parent_def)

lemma parent_fallback_name: "parent (new_from_udev_fallback_name d) = parent d"
  by (simp add: new_from_udev_fallback_name_def)

lemma new_from_udev_parent:
  assumes "hooks_keep_parent hooks"
    and "ldm_device_new_from_udev hooks parent_ptr device properties = Inr node"
  shows "ldm_device_get_parent (Some node) = parent_ptr"
  using assms
  by (auto simp: ldm_device_new_from_udev_def Let_def ldm_device_get_parent_def
      parent_fallback_name parent_init_private parent_hwdb parent_basics split: sum.splits)

lemma node_at_add:
  "node_at (kids_update (fmupd path c) self) ks =
     (case ks of
        [] \<Rightarrow> Some (kids_update (fmupd path c) self)
      | k # ks' \<Rightarrow> if k = path then node_at c ks' else node_at self ks)"
  by (cases ks) simp_all

lemma node_at_remove:
  "node_at (kids_update (fmdrop p) self) ks =
     (case ks of
        [] \<Rightarrow> Some (kids_update (fmdrop p) self)
      | k # ks' \<Rightarrow> if k = p then None else node_at self ks)"
  by (cases ks) simp_all

lemma add_child_parent_links:
  assumes "ldm_device_add_child (Some self) (Some child) = Inr (Some self1)"
    and "ldm_device_get_path (Some child) = Some path"
  shows "ldm_device_get_parent (node_at self1 ks) =
         (case ks of
            [] \<Rightarrow> ldm_device_get_parent (Some self)
          | k # ks' \<Rightarrow> if k = path then ldm_device_get_parent (node_at child ks')
                       else ldm_device_get_parent (node_at self ks))"
proof -
  from assms(2) have "sysfs_path (os child) = Some path"
    by (simp add: ldm_device_get_path_def)
  with assms(1) have "self1 = kids_update (fmupd path child) self"
    by (simp add: add_child_Some)
  then show ?thesis
    by (simp add: node_at_add ldm_device_get_parent_def split: list.splits)
qed

lemma remove_by_path_parent_links:
  assumes "ldm_device_remove_child_by_path (Some self) rpath = Inr (Some self1)"
    and "node_at self1 ks \<noteq> None"
  shows "ldm_device_get_parent (node_at self1 ks) = ldm_device_get_parent (node_at self ks)"
  using assms
  by (elim remove_by_path_result)
     (auto simp: node_at_remove ldm_device_get_parent_def split: list.splits if_splits)

lemma remove_child_parent_links:
  assumes "ldm_device_remove_child (Some self) rchild = Inr (Some self1)"
    and "node_at self1 ks \<noteq> None"
  shows "ldm_device_get_parent (node_at self1 ks) = ldm_device_get_parent (node_at self ks)"
  using assms by (simp add: ldm_device_remove_child_def remove_by_path_parent_links)

lemma special_type_Some:
  "new_from_udev_special_type (Some s) =
     Inr (if s = ''usb'' then LDM_TYPE_USB_DEVICE
          else if s = ''pci'' then LDM_TYPE_PCI_DEVICE
          else if s = ''dmi'' then LDM_TYPE_DMI_DEVICE
          else if s = ''hid'' then LDM_TYPE_HID_DEVICE
          else if s = ''bluetooth'' then LDM_TYPE_BLUETOOTH_DEVICE
          else if s = ''ieee80211'' then LDM_TYPE_WIFI_DEVICE
          else LDM_TYPE_DEVICE)"
  by (simp add: new_from_udev_special_type_def)

lemma example_construction_total:
  "\<exists>node. ldm_device_new_from_udev example_hooks p (example_udev (Some s)) properties = Inr node"
  by (simp add: ldm_device_new_from_udev_def special_type_Some example_udev_def Let_def)

lemma example_add_total:
  "\<exists>s1. ldm_device_add_child (Some example_root) (Some example_replacement) = Inr (Some s1)"
  using example_paths(1) by (simp add: add_child_Some ldm_device_get_path_def)

lemma example_remove_total:
  "\<exists>s2. ldm_device_remove_child_by_path (Some example_root) (Some p) = Inr (Some s2)"
  "\<exists>s3. ldm_device_remove_child (Some example_root) (Some example_child) = Inr (Some s3)"
  by (simp_all add: ldm_device_remove_child_by_path_def ldm_device_remove_child_def
      ldm_device_get_path_def example_child_def)

lemma add_child_released_node:
  assumes "ldm_device_add_child_released other_refs (Some self) (Some child) = Inr (Some gone)"
    and "ldm_device_get_path (Some child) = Some path"
  shows "fmlookup (kids self) path = Some gone"
  using assms
  by (auto simp: ldm_device_add_child_released_def g_object_unref_def
      split: option.splits if_splits)

lemma remove_by_path_released_node:
  assumes "ldm_device_remove_child_by_path_released other_refs (Some self) (Some p)
             = Inr (Some gone)"
  shows "fmlookup (kids self) p = Some gone"
  using assms
  by (auto simp: ldm_device_remove_child_by_path_released_def g_object_unref_def
      split: option.splits if_splits)

lemma node_at_stored: "fmlookup (kids self) p = Some c \<Longrightarrow> node_at self (p # ks) = node_at c ks"
  by simp

lemma add_child_released_parent_links:
  assumes "ldm_device_add_child_released other_refs (Some self) (Some child) = Inr (Some gone)"
    and "ldm_device_get_path (Some child) = Some path"
  shows "ldm_device_get_parent (node_at gone ks) = ldm_device_get_parent (node_at self (path # ks))"
  using add_child_released_node [OF assms] by (simp only: node_at_stored)

lemma remove_by_path_released_parent_links:
  assumes "ldm_device_remove_child_by_path_released other_refs (Some self) (Some p)
             = Inr (Some gone)"
  shows "ldm_device_get_parent (node_at gone ks) = ldm_device_get_parent (node_at self (p # ks))"
  using remove_by_path_released_node [OF assms] by (simp only: node_at_stored)

lemma remove_child_released_parent_links:
  assumes "ldm_device_remove_child_released other_refs (Some self) (Some child) = Inr (Some gone)"
    and "ldm_device_get_path (Some child) = Some p"
  shows "ldm_device_get_parent (node_at gone ks) = ldm_device_get_parent (node_at self (p # ks))"
  using assms
  by (simp add: ldm_device_remove_child_released_def remove_by_path_released_parent_links)

lemma released_when_held:
  assumes "ldm_device_get_child_by_path (Some self) (Some p) = Inr (Some stored)"
  shows "ldm_device_remove_child_by_path_released True (Some self) (Some p) = Inr (Some stored)"
    and "ldm_device_get_path (Some child) = Some p \<Longrightarrow>
         ldm_device_remove_child_released True (Some self) (Some child) = Inr (Some stored)"
    and "ldm_device_get_path (Some child) = Some p \<Longrightarrow>
         ldm_device_add_child_released True (Some self) (Some child) = Inr (Some stored)"
  using assms
  by (simp_all add: ldm_device_get_child_by_path_def ldm_device_remove_child_by_path_released_def
      ldm_device_remove_child_released_def ldm_device_add_child_released_def g_object_unref_def
      ldm_device_get_path_def)

text \<open>The account of the detached node faults exactly where the mutator faults.\<close>

lemma released_faults_with_mutator:
  "isl (ldm_device_add_child_released other_refs self child) = isl (ldm_device_add_child self child)"
  "isl (ldm_device_remove_child_by_path_released other_refs self path)
     = isl (ldm_device_remove_child_by_path self path)"
  "isl (ldm_device_remove_child_released other_refs self child)
     = isl (ldm_device_remove_child self child)"
  by (auto simp: ldm_device_add_child_released_def ldm_device_add_child_def
      ldm_device_remove_child_by_path_released_def ldm_device_remove_child_by_path_def
      ldm_device_remove_child_released_def ldm_device_remove_child_def
      split: option.splits)

lemma example_child_parent_before:
  "ldm_device_get_parent (node_at example_root [''/sys/devices/pci0/hid0'']) = Some 4096"
  by (simp add: example_root_def example_child_def ldm_device_get_parent_def)

text \<open>
  C7. A node constructed with parent \<open>P\<close> (possibly \<open>NULL\<close>) has \<open>P\<close> as its parent, and
  no operation of the tree changes a parent link. After \<open>ldm_device_add_child\<close>, at every
  position of the tree stands a node with the parent link it had before the call (in the
  tree of \<open>self\<close>, or in the tree of the child handed in); after
  \<open>ldm_device_remove_child_by_path\<close> and \<open>ldm_device_remove_child\<close>, every node still in
  the tree has the parent link it had. The node that a call detaches (the child removed,
  or the node replaced by \<open>ldm_device_add_child\<close>), if it lives on, has at every position
  of its own subtree the parent link it had in the tree before the call; and a detached
  node that somebody still references does live on, as the node that was stored. The
  variant initialisers, which are not part of the sources, are taken not to write
  \<open>tree.parent\<close>.
\<close>

theorem parent_link_fixed:
  "(hooks_keep_parent hooks \<and>
      ldm_device_new_from_udev hooks parent_ptr device properties = Inr node \<longrightarrow>
      ldm_device_get_parent (Some node) = parent_ptr) \<and>
   (ldm_device_add_child (Some self) (Some child) = Inr (Some self1) \<and>
      ldm_device_get_path (Some child) = Some path \<longrightarrow>
      (\<forall>ks. ldm_device_get_parent (node_at self1 ks) =
         (case ks of
            [] \<Rightarrow> ldm_device_get_parent (Some self)
          | k # ks' \<Rightarrow> if k = path then ldm_device_get_parent (node_at child ks')
                       else ldm_device_get_parent (node_at self ks)))) \<and>
   (ldm_device_remove_child_by_path (Some self) rpath = Inr (Some self2) \<longrightarrow>
      (\<forall>ks. node_at self2 ks \<noteq> None \<longrightarrow>
         ldm_device_get_parent (node_at self2 ks) = ldm_device_get_parent (node_at self ks))) \<and>
   (ldm_device_remove_child (Some self) rchild = Inr (Some self3) \<longrightarrow>
      (\<forall>ks. node_at self3 ks \<noteq> None \<longrightarrow>
         ldm_device_get_parent (node_at self3 ks) = ldm_device_get_parent (node_at self ks))) \<and>
   (ldm_device_add_child_released other_refs (Some self) (Some child) = Inr (Some gone1) \<and>
      ldm_device_get_path (Some child) = Some path \<longrightarrow>
      (\<forall>ks. ldm_device_get_parent (node_at gone1 ks) =
            ldm_device_get_parent (node_at self (path # ks)))) \<and>
   (ldm_device_remove_child_by_path_released other_refs (Some self) (Some p) = Inr (Some gone2) \<longrightarrow>
      (\<forall>ks. ldm_device_get_parent (node_at gone2 ks) =
            ldm_device_get_parent (node_at self (p # ks)))) \<and>
   (ldm_device_remove_child_released other_refs (Some self) (Some dchild) = Inr (Some gone3) \<and>
      ldm_device_get_path (Some dchild) = Some dpath \<longrightarrow>
      (\<forall>ks. ldm_device_get_parent (node_at gone3 ks) =
            ldm_device_get_parent (node_at self (dpath # ks)))) \<and>
   (ldm_device_get_child_by_path (Some self) (Some p) = Inr (Some stored) \<longrightarrow>
      ldm_device_remove_child_by_path_released True (Some self) (Some p) = Inr (Some stored) \<and>
      (ldm_device_get_path (Some dchild) = Some p \<longrightarrow>
         ldm_device_remove_child_released True (Some self) (Some dchild) = Inr (Some stored)) \<and>
      (ldm_device_get_path (Some child) = Some p \<longrightarrow>
         ldm_device_add_child_released True (Some self) (Some child) = Inr (Some stored)))"
proof (intro conjI impI allI)
  assume "hooks_keep_parent hooks \<and>
      ldm_device_new_from_udev hooks parent_ptr device properties = Inr node"
  then show "ldm_device_get_parent (Some node) = parent_ptr"
    using new_from_udev_parent by blast
next
  fix ks
  assume "ldm_device_add_child (Some self) (Some child) = Inr (Some self1) \<and>
      ldm_device_get_path (Some child) = Some path"
  then show "ldm_device_get_parent (node_at self1 ks) =
         (case ks of
            [] \<Rightarrow> ldm_device_get_parent (Some self)
          | k # ks' \<Rightarrow> if k = path then ldm_device_get_parent (node_at child ks')
                       else ldm_device_get_parent (node_at self ks))"
    using add_child_parent_links by blast
next
  fix ks
  assume "ldm_device_remove_child_by_path (Some self) rpath = Inr (Some self2)"
    and "node_at self2 ks \<noteq> None"
  then show "ldm_device_get_parent (node_at self2 ks) = ldm_device_get_parent (node_at self ks)"
    by (rule remove_by_path_parent_links)
next
  fix ks
  assume "ldm_device_remove_child (Some self) rchild = Inr (Some self3)"
    and "node_at self3 ks \<noteq> None"
  then show "ldm_device_get_parent (node_at self3 ks) = ldm_device_get_parent (node_at self ks)"
    by (rule remove_child_parent_links)
next
  fix ks
  assume "ldm_device_add_child_released other_refs (Some self) (Some child) = Inr (Some gone1) \<and>
      ldm_device_get_path (Some child) = Some path"
  then show "ldm_device_get_parent (node_at gone1 ks) =
            ldm_device_get_parent (node_at self (path # ks))"
    using add_child_released_parent_links by blast
next
  fix ks
  assume "ldm_device_remove_child_by_path_released other_refs (Some self) (Some p)
      = Inr (Some gone2)"
  then show "ldm_device_get_parent (node_at gone2 ks) =
            ldm_device_get_parent (node_at self (p # ks))"
    by (rule remove_by_path_released_parent_links)
next
  fix ks
  assume "ldm_device_remove_child_released other_refs (Some self) (Some dchild)
        = Inr (Some gone3) \<and>
      ldm_device_get_path (Some dchild) = Some dpath"
  then show "ldm_device_get_parent (node_at gone3 ks) =
            ldm_device_get_parent (node_at self (dpath # ks))"
    using remove_child_released_parent_links by blast
next
  assume "ldm_device_get_child_by_path (Some self) (Some p) = Inr (Some stored)"
  then show "ldm_device_remove_child_by_path_released True (Some self) (Some p)
      = Inr (Some stored)"
    by (rule released_when_held)
next
  assume "ldm_device_get_child_by_path (Some self) (Some p) = Inr (Some stored)"
    and "ldm_device_get_path (Some dchild) = Some p"
  then show "ldm_device_remove_child_released True (Some self) (Some dchild) = Inr (Some stored)"
    by (rule released_when_held)
next
  assume "ldm_device_get_child_by_path (Some self) (Some p) = Inr (Some stored)"
    and "ldm_device_get_path (Some child) = Some p"
  then show "ldm_device_add_child_released True (Some self) (Some child) = Inr (Some stored)"
    by (rule released_when_held)
qed

text \<open>
  A PCI device constructed with parent address 4096; the example root before and after
  its child is replaced, and after the child is removed; and the child itself, whose
  parent is the address 4096 in the tree and still is after it has been removed or
  replaced.
\<close>

theorem parent_link_fixed_witness:
  "hooks_keep_parent example_hooks \<and>
   (\<exists>node. ldm_device_new_from_udev example_hooks (Some 4096) (example_udev (Some ''pci'')) None
            = Inr node \<and>
      ldm_device_get_parent (Some node) = Some 4096) \<and>
   (\<exists>s1. ldm_device_add_child (Some example_root) (Some example_replacement) = Inr (Some s1) \<and>
      ldm_device_get_parent (node_at s1 []) = ldm_device_get_parent (Some example_root) \<and>
      ldm_device_get_parent (node_at s1 [''/sys/devices/pci0/hid0'']) = Some 4096) \<and>
   (\<exists>s2. ldm_device_remove_child_by_path (Some example_root) (Some ''/sys/devices/pci0/hid0'')
            = Inr (Some s2) \<and>
      node_at s2 [] \<noteq> None \<and>
      ldm_device_get_parent (node_at s2 []) = ldm_device_get_parent (Some example_root)) \<and>
   (\<exists>s3. ldm_device_remove_child (Some example_root) (Some example_child) = Inr (Some s3) \<and>
      node_at s3 [] \<noteq> None \<and>
      ldm_device_get_parent (node_at s3 []) = ldm_device_get_parent (Some example_root)) \<and>
   ldm_device_get_child_by_path (Some example_root) (Some ''/sys/devices/pci0/hid0'')
     = Inr (Some example_child) \<and>
   ldm_device_get_parent (node_at example_root [''/sys/devices/pci0/hid0'']) = Some 4096 \<and>
   (\<exists>gone. ldm_device_remove_child_by_path_released True (Some example_root)
              (Some ''/sys/devices/pci0/hid0'') = Inr (Some gone) \<and>
      ldm_device_get_parent (node_at gone []) = Some 4096) \<and>
   (\<exists>gone. ldm_device_remove_child_released True (Some example_root) (Some example_child)
              = Inr (Some gone) \<and>
      ldm_device_get_parent (node_at gone []) = Some 4096) \<and>
   (\<exists>gone. ldm_device_add_child_released True (Some example_root) (Some example_replacement)
              = Inr (Some gone) \<and>
      ldm_device_get_parent (node_at gone []) = Some 4096)"
proof -
  obtain node where node:
    "ldm_device_new_from_udev example_hooks (Some 4096) (example_udev (Some ''pci'')) None
       = Inr node"
    using example_construction_total by blast
  obtain s1 where s1:
    "ldm_device_add_child (Some example_root) (Some example_replacement) = Inr (Some s1)"
    using example_add_total by blast
  obtain s2 where s2:
    "ldm_device_remove_child_by_path (Some example_root) (Some ''/sys/devices/pci0/hid0'')
       = Inr (Some s2)"
    using example_remove_total(1) by blast
  obtain s3 where s3:
    "ldm_device_remove_child (Some example_root) (Some example_child) = Inr (Some s3)"
    using example_remove_total(2) by blast
  note fixed = parent_link_fixed [where hooks = example_hooks and parent_ptr = "Some 4096"
      and device = "example_udev (Some ''pci'')" and properties = None and node = node
      and self = example_root and child = example_replacement and ?self1.0 = s1
      and path = "''/sys/devices/pci0/hid0''" and rpath = "Some ''/sys/devices/pci0/hid0''"
      and ?self2.0 = s2 and rchild = "Some example_child" and ?self3.0 = s3
      and other_refs = True and ?gone1.0 = example_child
      and p = "''/sys/devices/pci0/hid0''" and ?gone2.0 = example_child
      and dchild = example_child and ?gone3.0 = example_child
      and dpath = "''/sys/devices/pci0/hid0''" and stored = example_child]
  note c1 = fixed [THEN conjunct1]
  note c2 = fixed [THEN conjunct2, THEN conjunct1]
  note c3 = fixed [THEN conjunct2, THEN conjunct2, THEN conjunct1]
  note c4 = fixed [THEN conjunct2, THEN conjunct2, THEN conjunct2, THEN conjunct1]
  note c6 = fixed [THEN conjunct2, THEN conjunct2, THEN conjunct2, THEN conjunct2,
      THEN conjunct2, THEN conjunct1]
  note c8 = fixed [THEN conjunct2, THEN conjunct2, THEN conjunct2, THEN conjunct2,
      THEN conjunct2, THEN conjunct2, THEN conjunct2]
  from c1 example_hooks_keep_parent node
  have a: "ldm_device_get_parent (Some node) = Some 4096" by simp
  from c2 s1 example_paths(1)
  have b: "\<forall>ks. ldm_device_get_parent (node_at s1 ks) =
         (case ks of
            [] \<Rightarrow> ldm_device_get_parent (Some example_root)
          | k # ks' \<Rightarrow> if k = ''/sys/devices/pci0/hid0''
                       then ldm_device_get_parent (node_at example_replacement ks')
                       else ldm_device_get_parent (node_at example_root ks))"
    by (rule mp [OF _ conjI])
  from b [rule_format, of "[]"]
  have b1: "ldm_device_get_parent (node_at s1 []) = ldm_device_get_parent (Some example_root)"
    by simp
  from b [rule_format, of "[''/sys/devices/pci0/hid0'']"]
  have b2: "ldm_device_get_parent (node_at s1 [''/sys/devices/pci0/hid0'']) = Some 4096"
    by (simp add: ldm_device_get_parent_def example_replacement_def)
  from c3 [rule_format, OF s2, of "[]"]
  have c: "ldm_device_get_parent (node_at s2 []) = ldm_device_get_parent (Some example_root)"
    by simp
  from c4 [rule_format, OF s3, of "[]"]
  have d: "ldm_device_get_parent (node_at s3 []) = ldm_device_get_parent (Some example_root)"
    by simp
  note held = c8 [rule_format, OF example_root_lookup]
  have rel1: "ldm_device_remove_child_by_path_released True (Some example_root)
       (Some ''/sys/devices/pci0/hid0'') = Inr (Some example_child)"
    by (rule held [THEN conjunct1])
  have rel2: "ldm_device_remove_child_released True (Some example_root) (Some example_child)
       = Inr (Some example_child)"
    by (rule held [THEN conjunct2, THEN conjunct1, rule_format, OF example_paths(2)])
  have rel3: "ldm_device_add_child_released True (Some example_root) (Some example_replacement)
       = Inr (Some example_child)"
    by (rule held [THEN conjunct2, THEN conjunct2, rule_format, OF example_paths(1)])
  from c6 [rule_format, OF rel1, of "[]"] example_child_parent_before
  have e: "ldm_device_get_parent (node_at example_child []) = Some 4096"
    by simp
  have h1: "\<exists>node. ldm_device_new_from_udev example_hooks (Some 4096)
        (example_udev (Some ''pci'')) None = Inr node \<and>
      ldm_device_get_parent (Some node) = Some 4096"
    using node a by blast
  have h2: "\<exists>s1. ldm_device_add_child (Some example_root) (Some example_replacement)
        = Inr (Some s1) \<and>
      ldm_device_get_parent (node_at s1 []) = ldm_device_get_parent (Some example_root) \<and>
      ldm_device_get_parent (node_at s1 [''/sys/devices/pci0/hid0'']) = Some 4096"
    using s1 b1 b2 by blast
  have h3: "\<exists>s2. ldm_device_remove_child_by_path (Some example_root)
        (Some ''/sys/devices/pci0/hid0'') = Inr (Some s2) \<and>
      node_at s2 [] \<noteq> None \<and>
      ldm_device_get_parent (node_at s2 []) = ldm_device_get_parent (Some example_root)"
    using s2 c by (intro exI [of _ s2]) simp
  have h4: "\<exists>s3. ldm_device_remove_child (Some example_root) (Some example_child)
        = Inr (Some s3) \<and>
      node_at s3 [] \<noteq> None \<and>
      ldm_device_get_parent (node_at s3 []) = ldm_device_get_parent (Some example_root)"
    using s3 d by (intro exI [of _ s3]) simp
  have h5: "\<exists>gone. ldm_device_remove_child_by_path_released True (Some example_root)
              (Some ''/sys/devices/pci0/hid0'') = Inr (Some gone) \<and>
      ldm_device_get_parent (node_at gone []) = Some 4096"
    using rel1 e by blast
  have h6: "\<exists>gone. ldm_device_remove_child_released True (Some example_root)
        (Some example_child) = Inr (Some gone) \<and>
      ldm_device_get_parent (node_at gone []) = Some 4096"
    using rel2 e by blast
  have h7: "\<exists>gone. ldm_device_add_child_released True (Some example_root)
        (Some example_replacement) = Inr (Some gone) \<and>
      ldm_device_get_parent (node_at gone []) = Some 4096"
    using rel3 e by blast
  from example_hooks_keep_parent h1 h2 h3 h4 example_root_lookup example_child_parent_before
    h5 h6 h7
  show ?thesis
    by (intro conjI)
qed

subsection \<open>Construction: vendor and name\<close>

lemma fmlookup_foldl_fmupd:
  "fmlookup (foldl (\<lambda>h (k, v). fmupd k v h) h0 entries) key =
     (case map_of (rev entries) key of Some v \<Rightarrow> Some v | None \<Rightarrow> fmlookup h0 key)"
  by (induction entries arbitrary: h0 rule: rev_induct) (auto split: option.splits)

lemma hwdb_table:
  "hwdb_info (os (new_from_udev_hwdb d (Some entries))) =
     foldl (\<lambda>h (k, v). fmupd k v h) (hwdb_info (os d)) entries"
  by (auto simp: new_from_udev_hwdb_def Let_def)

lemma hwdb_vendor:
  "vendor (ident (new_from_udev_hwdb d properties)) =
     (if properties = None then vendor (ident d)
      else case prefer_key (fmlookup (hwdb_info (os (new_from_udev_hwdb d properties))))
                  ''ID_VENDOR_FROM_DATABASE'' ''ID_VENDOR'' of
             Some v \<Rightarrow> Some v
           | None \<Rightarrow> vendor (ident d))"
  by (auto simp: new_from_udev_hwdb_def prefer_key_def Let_def split: option.splits)

lemma hwdb_name:
  "name (ident (new_from_udev_hwdb d properties)) =
     (if properties = None then name (ident d)
      else case prefer_key (fmlookup (hwdb_info (os (new_from_udev_hwdb d properties))))
                  ''ID_MODEL_FROM_DATABASE'' ''ID_MODEL'' of
             Some v \<Rightarrow> Some v
           | None \<Rightarrow> name (ident d))"
  by (auto simp: new_from_udev_hwdb_def prefer_key_def Let_def split: option.splits)

lemma fallback_name_name:
  "name (ident (new_from_udev_fallback_name d)) =
     Some (case name (ident d) of Some n \<Rightarrow> n
           | None \<Rightarrow> ''Device '' @ printf_x (product_id (ident d)))"
  by (auto simp: new_from_udev_fallback_name_def)

lemma fallback_name_others:
  "vendor (ident (new_from_udev_fallback_name d)) = vendor (ident d)"
  "product_id (ident (new_from_udev_fallback_name d)) = product_id (ident d)"
  "os (new_from_udev_fallback_name d) = os d"
  "gtype (new_from_udev_fallback_name d) = gtype d"
  by (auto simp: new_from_udev_fallback_name_def)

text \<open>What \<open>%x\<close> prints: lower-case hexadecimal digits, the value, no leading zero.\<close>

lemma hex_of_nat_small: "n < 16 \<Longrightarrow> hex_of_nat n = [hex_digit n]"
  by (subst hex_of_nat.simps) simp

lemma hex_of_nat_big:
  "\<not> n < 16 \<Longrightarrow> hex_of_nat n = hex_of_nat (n div 16) @ [hex_digit (n mod 16)]"
  by (subst hex_of_nat.simps) simp

lemma printf_x_16: "printf_x 0x10 = ''10''"
  by (simp add: printf_x_def hex_of_nat_small hex_of_nat_big hex_digit_def)

lemma printf_x_examples:
  "printf_x 0 = ''0''" "printf_x 0xab = ''ab''" "printf_x 0x1f40 = ''1f40''"
  "printf_x 0xffffffff = ''ffffffff''"
  by (simp_all add: printf_x_def hex_of_nat_small hex_of_nat_big hex_digit_def)

lemma lt16_cases:
  assumes "d < (16::nat)"
  shows "d \<in> {0, 1, 2, 3, 4, 5, 6, 7, 8, 9, 10, 11, 12, 13, 14, 15}"
  using assms by simp presburger

lemma hex_digit_value_hex_digit: "d < 16 \<Longrightarrow> hex_digit_value (hex_digit d) = d"
  by (drule lt16_cases) (auto simp: hex_digit_value_def hex_digit_def)

lemma hex_digit_lower: "d < 16 \<Longrightarrow> hex_digit d \<in> set ''0123456789abcdef''"
  by (drule lt16_cases) (auto simp: hex_digit_def)

lemma hex_digit_zero: "d < 16 \<Longrightarrow> hex_digit d = CHR ''0'' \<longleftrightarrow> d = 0"
  by (drule lt16_cases) (auto simp: hex_digit_def)

lemma hex_value_append: "hex_value (cs @ [c]) = 16 * hex_value cs + hex_digit_value c"
  by (simp add: hex_value_def)

lemma hex_value_hex_of_nat: "hex_value (hex_of_nat n) = n"
proof (induction n rule: hex_of_nat.induct)
  case (1 n)
  show ?case
  proof (cases "n < 16")
    case True
    then show ?thesis
      using hex_value_append [of "[]" "hex_digit n"]
      by (simp add: hex_of_nat_small hex_digit_value_hex_digit hex_value_def)
  next
    case False
    with 1 have "hex_value (hex_of_nat (n div 16)) = n div 16" by simp
    with False show ?thesis
      by (simp add: hex_of_nat_big hex_value_append hex_digit_value_hex_digit)
  qed
qed

lemma hex_of_nat_chars: "set (hex_of_nat n) \<subseteq> set ''0123456789abcdef''"
proof (induction n rule: hex_of_nat.induct)
  case (1 n)
  show ?case
  proof (cases "n < 16")
    case True
    then show ?thesis
      using hex_digit_lower [of n] by (simp add: hex_of_nat_small)
  next
    case False
    with 1 have "set (hex_of_nat (n div 16)) \<subseteq> set ''0123456789abcdef''" by simp
    moreover have "hex_digit (n mod 16) \<in> set ''0123456789abcdef''"
      by (rule hex_digit_lower) simp
    ultimately show ?thesis using False
      by (simp add: hex_of_nat_big)
  qed
qed

lemma hex_of_nat_nonempty: "hex_of_nat n \<noteq> []"
  by (cases "n < 16") (simp_all add: hex_of_nat_small hex_of_nat_big)

lemma hex_of_nat_no_leading_zero: "0 < n \<Longrightarrow> hd (hex_of_nat n) \<noteq> CHR ''0''"
proof (induction n rule: hex_of_nat.induct)
  case (1 n)
  show ?case
  proof (cases "n < 16")
    case True
    with "1.prems" show ?thesis
      by (simp add: hex_of_nat_small hex_digit_zero)
  next
    case False
    then have "0 < n div 16" by (simp add: div_greater_zero_iff)
    with 1 False have "hd (hex_of_nat (n div 16)) \<noteq> CHR ''0''" by simp
    with False show ?thesis
      by (simp add: hex_of_nat_big hex_of_nat_nonempty)
  qed
qed

lemma printf_x_hex:
  "hex_value (printf_x w) = unat w"
  "set (printf_x w) \<subseteq> set ''0123456789abcdef''"
  "w \<noteq> 0 \<Longrightarrow> hd (printf_x w) \<noteq> CHR ''0''"
  using hex_of_nat_chars [of "unat w"]
  by (simp_all add: printf_x_def hex_value_hex_of_nat hex_of_nat_no_leading_zero unat_gt_0
      del: set_simps)

lemma new_from_udev_stages:
  assumes "ldm_device_new_from_udev hooks parent_ptr device properties = Inr self"
  obtains t where "new_from_udev_special_type (udev_device_get_subsystem device) = Inr t"
    "self = new_from_udev_fallback_name
       (new_from_udev_init_private hooks t
         (new_from_udev_hwdb (new_from_udev_basics hooks t parent_ptr device) properties) device)"
  using assms by (auto simp: ldm_device_new_from_udev_def Let_def split: sum.splits)

lemma new_from_udev_identity_stages:
  assumes "ldm_device_new_from_udev hooks parent_ptr device properties = Inr self"
  shows "\<exists>t. new_from_udev_special_type (udev_device_get_subsystem device) = Inr t \<and>
     (let base = new_from_udev_basics hooks t parent_ptr device;
          mid = new_from_udev_hwdb base properties;
          tbl = fmlookup (hwdb_info (os mid));
          post = new_from_udev_init_private hooks t mid device
      in vendor (ident mid) =
           (if properties = None then vendor (ident base)
            else case prefer_key tbl ''ID_VENDOR_FROM_DATABASE'' ''ID_VENDOR'' of
                   Some v \<Rightarrow> Some v
                 | None \<Rightarrow> vendor (ident base)) \<and>
         name (ident mid) =
           (if properties = None then name (ident base)
            else case prefer_key tbl ''ID_MODEL_FROM_DATABASE'' ''ID_MODEL'' of
                   Some v \<Rightarrow> Some v
                 | None \<Rightarrow> name (ident base)) \<and>
         self = new_from_udev_fallback_name post \<and>
         vendor (ident self) = vendor (ident post) \<and>
         product_id (ident self) = product_id (ident post) \<and>
         name (ident self) =
           Some (case name (ident post) of
                   Some n \<Rightarrow> n
                 | None \<Rightarrow> ''Device '' @ printf_x (product_id (ident self))))"
proof -
  from assms obtain t where
    t: "new_from_udev_special_type (udev_device_get_subsystem device) = Inr t" and
    self: "self = new_from_udev_fallback_name
       (new_from_udev_init_private hooks t
         (new_from_udev_hwdb (new_from_udev_basics hooks t parent_ptr device) properties) device)"
    by (rule new_from_udev_stages)
  show ?thesis
    unfolding Let_def
    using t self hwdb_vendor [of "new_from_udev_basics hooks t parent_ptr device" properties]
      hwdb_name [of "new_from_udev_basics hooks t parent_ptr device" properties]
    by (intro exI [of _ t] conjI)
       (simp_all add: fallback_name_name fallback_name_others split: option.splits)
qed

text \<open>
  C5. Construction derives the vendor from the hwdb table by preferring
  \<open>ID_VENDOR_FROM_DATABASE\<close>, else \<open>ID_VENDOR\<close>, else leaving it as it is (unset), and the
  name by preferring \<open>ID_MODEL_FROM_DATABASE\<close>, else \<open>ID_MODEL\<close>. If the name is still
  unset after the variant initialiser has run, it is \<open>"Device "\<close> followed by the product
  id in hexadecimal: lower-case digits that read back as the value of the product id,
  without a leading zero; the product id 0x10 is printed as \<open>10\<close>. Here \<open>base\<close> is the
  device before the hwdb block, \<open>mid\<close> after it, \<open>post\<close> after the variant initialiser.
\<close>

theorem new_from_udev_vendor_and_name:
  assumes "ldm_device_new_from_udev hooks parent_ptr device properties = Inr self"
  shows "(\<exists>t. new_from_udev_special_type (udev_device_get_subsystem device) = Inr t \<and>
     (let base = new_from_udev_basics hooks t parent_ptr device;
          mid = new_from_udev_hwdb base properties;
          tbl = fmlookup (hwdb_info (os mid));
          post = new_from_udev_init_private hooks t mid device
      in vendor (ident mid) =
           (if properties = None then vendor (ident base)
            else case prefer_key tbl ''ID_VENDOR_FROM_DATABASE'' ''ID_VENDOR'' of
                   Some v \<Rightarrow> Some v
                 | None \<Rightarrow> vendor (ident base)) \<and>
         name (ident mid) =
           (if properties = None then name (ident base)
            else case prefer_key tbl ''ID_MODEL_FROM_DATABASE'' ''ID_MODEL'' of
                   Some v \<Rightarrow> Some v
                 | None \<Rightarrow> name (ident base)) \<and>
         self = new_from_udev_fallback_name post \<and>
         vendor (ident self) = vendor (ident post) \<and>
         product_id (ident self) = product_id (ident post) \<and>
         name (ident self) =
           Some (case name (ident post) of
                   Some n \<Rightarrow> n
                 | None \<Rightarrow> ''Device '' @ printf_x (product_id (ident self))))) \<and>
     printf_x 0x10 = ''10'' \<and>
     hex_value (printf_x w) = unat w \<and>
     set (printf_x w) \<subseteq> set ''0123456789abcdef'' \<and>
     (w \<noteq> 0 \<longrightarrow> hd (printf_x w) \<noteq> CHR ''0'')"
  using new_from_udev_identity_stages [OF assms] printf_x_16 printf_x_hex [of w]
  by (intro conjI impI) assumption+

text \<open>
  A device of an unknown subsystem with the properties \<open>ID_MODEL\<close>, \<open>ID_VENDOR\<close> and
  \<open>ID_VENDOR_FROM_DATABASE\<close>, and a PCI device without properties whose initialiser sets
  the product id 0x10.
\<close>

theorem new_from_udev_vendor_and_name_witness:
  "(\<exists>self. ldm_device_new_from_udev example_hooks None (example_udev (Some ''nonsense''))
             (Some example_properties) = Inr self \<and>
      vendor (ident self) = Some ''Acme Corp'' \<and> name (ident self) = Some ''Foo'') \<and>
   (\<exists>self. ldm_device_new_from_udev example_hooks None (example_udev (Some ''pci'')) None
             = Inr self \<and>
      vendor (ident self) = None \<and> name (ident self) = Some ''Device 10'') \<and>
   (0x10 :: gint) \<noteq> 0 \<and> hd (printf_x 0x10) \<noteq> CHR ''0'' \<and> hex_value (printf_x 0x10) = 16"
proof -
  obtain a where a: "ldm_device_new_from_udev example_hooks None
      (example_udev (Some ''nonsense'')) (Some example_properties) = Inr a"
    using example_construction_total by blast
  obtain b where b: "ldm_device_new_from_udev example_hooks None
      (example_udev (Some ''pci'')) None = Inr b"
    using example_construction_total by blast
  note at_a = new_from_udev_vendor_and_name [OF a, of "0x10"]
  note at_b = new_from_udev_vendor_and_name [OF b, of "0x10"]
  have "vendor (ident a) = Some ''Acme Corp'' \<and> name (ident a) = Some ''Foo''"
    using at_a [THEN conjunct1]
    by (simp add: Let_def special_type_Some example_udev_def example_hooks_def
        new_from_udev_basics_def g_object_new_def ldm_device_init_def
        new_from_udev_hwdb_def new_from_udev_init_private_def example_properties_def
        new_from_udev_fallback_name_def prefer_key_def)
  moreover have "vendor (ident b) = None \<and> name (ident b) = Some ''Device 10''"
    using at_b [THEN conjunct1]
    by (simp add: Let_def special_type_Some example_udev_def example_hooks_def
        new_from_udev_basics_def g_object_new_def ldm_device_init_def
        new_from_udev_hwdb_def new_from_udev_init_private_def prefer_key_def printf_x_16
        new_from_udev_fallback_name_def)
  moreover have nz: "(0x10 :: gint) \<noteq> 0" by simp
  moreover from at_b nz have "hd (printf_x 0x10) \<noteq> CHR ''0''" by blast
  moreover have "hex_value (printf_x 0x10) = 16"
  proof -
    from at_b have "hex_value (printf_x 0x10) = unat (0x10 :: gint)" by blast
    then show ?thesis by simp
  qed
  ultimately show ?thesis using a b by blast
qed

subsection \<open>Construction: the variant\<close>

lemma special_type_unknown:
  "s \<notin> known_subsystems \<Longrightarrow> new_from_udev_special_type (Some s) = Inr LDM_TYPE_DEVICE"
  by (simp add: new_from_udev_special_type_def known_subsystems_def)

lemma gtype_init [simp]: "gtype (ldm_device_init t) = t"
  by (simp add: ldm_device_init_def)

lemma gtype_g_object_new:
  "hooks_keep_gtype hooks \<Longrightarrow> gtype (g_object_new hooks t p) = t"
  by (simp add: g_object_new_def hooks_keep_gtype_def Let_def)

lemma gtype_basics:
  "hooks_keep_gtype hooks \<Longrightarrow> gtype (new_from_udev_basics hooks t p device) = t"
  by (simp add: new_from_udev_basics_def gtype_g_object_new Let_def split: option.splits)

lemma gtype_hwdb: "gtype (new_from_udev_hwdb d properties) = gtype d"
  by (simp add: new_from_udev_hwdb_def Let_def split: option.splits)

lemma gtype_init_private:
  "hooks_keep_gtype hooks \<Longrightarrow> gtype (new_from_udev_init_private hooks t d device) = gtype d"
  by (simp add: new_from_udev_init_private_def hooks_keep_gtype_def)

lemma new_from_udev_gtype:
  assumes "hooks_keep_gtype hooks"
    and "new_from_udev_special_type (udev_device_get_subsystem device) = Inr t"
  shows "\<exists>self. ldm_device_new_from_udev hooks parent_ptr device properties = Inr self \<and>
           gtype self = t"
  using assms
  by (simp add: ldm_device_new_from_udev_def Let_def fallback_name_others gtype_init_private
      gtype_hwdb gtype_basics)

text \<open>The base class: nothing of the variant initialisers runs.\<close>

lemma basics_generic:
  "new_from_udev_basics hooks LDM_TYPE_DEVICE p device =
     os_update (\<lambda>r. r\<lparr>sysfs_path := udev_device_get_syspath device,
                       modalias := udev_device_get_sysattr_value device ''modalias''\<rparr>)
       (parent_update (\<lambda>_. p) (ldm_device_init LDM_TYPE_DEVICE))"
  by (simp add: new_from_udev_basics_def g_object_new_def Let_def ldm_device_init_def
      split: option.splits)

lemma init_private_generic:
  "new_from_udev_init_private hooks LDM_TYPE_DEVICE d device = d"
  by (simp add: new_from_udev_init_private_def)

lemma os_hwdb_devtype: "devtype (os (new_from_udev_hwdb d properties)) = devtype (os d)"
  by (simp add: new_from_udev_hwdb_def Let_def split: option.splits)

lemma new_from_udev_generic:
  assumes "udev_device_get_subsystem device = Some s" "s \<notin> known_subsystems"
  shows "ldm_device_new_from_udev hooks parent_ptr device properties =
     Inr (new_from_udev_fallback_name
           (new_from_udev_hwdb
             (os_update (\<lambda>r. r\<lparr>sysfs_path := udev_device_get_syspath device,
                       modalias := udev_device_get_sysattr_value device ''modalias''\<rparr>)
               (parent_update (\<lambda>_. parent_ptr) (ldm_device_init LDM_TYPE_DEVICE)))
             properties))"
  using assms
  by (simp add: ldm_device_new_from_udev_def special_type_unknown basics_generic
      init_private_generic Let_def)

text \<open>
  For the base class everything is in device.c, and vendor and name are determined by
  the property list alone (of two entries with the same name the later one counts): the
  name of a device without a model is \<open>Device 0\<close>.
\<close>

lemma new_from_udev_generic_identity:
  assumes "udev_device_get_subsystem device = Some s" "s \<notin> known_subsystems"
    and "ldm_device_new_from_udev hooks parent_ptr device properties = Inr self"
  shows "vendor (ident self) =
           (case properties of
              None \<Rightarrow> None
            | Some entries \<Rightarrow>
                prefer_key (map_of (rev entries)) ''ID_VENDOR_FROM_DATABASE'' ''ID_VENDOR'')"
    and "name (ident self) =
           Some (case (case properties of
                         None \<Rightarrow> None
                       | Some entries \<Rightarrow>
                           prefer_key (map_of (rev entries)) ''ID_MODEL_FROM_DATABASE'' ''ID_MODEL'') of
                   Some n \<Rightarrow> n
                 | None \<Rightarrow> ''Device 0'')"
proof -
  let ?base = "os_update (\<lambda>r. r\<lparr>sysfs_path := udev_device_get_syspath device,
                       modalias := udev_device_get_sysattr_value device ''modalias''\<rparr>)
               (parent_update (\<lambda>_. parent_ptr) (ldm_device_init LDM_TYPE_DEVICE))"
  from assms new_from_udev_generic [OF assms(1,2), of hooks parent_ptr properties]
  have self: "self = new_from_udev_fallback_name (new_from_udev_hwdb ?base properties)"
    by simp
  have base: "vendor (ident ?base) = None" "name (ident ?base) = None"
    "product_id (ident ?base) = 0" "hwdb_info (os ?base) = fmempty"
    by (simp_all add: ldm_device_init_def)
  have tbl: "fmlookup (hwdb_info (os (new_from_udev_hwdb ?base (Some entries)))) key
      = map_of (rev entries) key" for entries key
    by (simp add: hwdb_table fmlookup_foldl_fmupd ldm_device_init_def split: option.splits)
  have pid: "product_id (ident (new_from_udev_hwdb ?base properties)) = 0"
    by (simp add: new_from_udev_hwdb_def Let_def ldm_device_init_def split: option.splits)
  have zero: "printf_x 0 = ''0''"
    by (rule printf_x_examples)
  show "vendor (ident self) =
           (case properties of
              None \<Rightarrow> None
            | Some entries \<Rightarrow>
                prefer_key (map_of (rev entries)) ''ID_VENDOR_FROM_DATABASE'' ''ID_VENDOR'')"
    unfolding self fallback_name_others hwdb_vendor [of ?base properties] base
    by (cases properties) (auto simp: prefer_key_def tbl split: option.splits)
  show "name (ident self) =
           Some (case (case properties of
                         None \<Rightarrow> None
                       | Some entries \<Rightarrow>
                           prefer_key (map_of (rev entries)) ''ID_MODEL_FROM_DATABASE'' ''ID_MODEL'') of
                   Some n \<Rightarrow> n
                 | None \<Rightarrow> ''Device 0'')"
    unfolding self fallback_name_name hwdb_name [of ?base properties] base pid zero
    by (cases properties) (auto simp: prefer_key_def tbl split: option.splits)
qed

text \<open>
  C6, as the code has it. For every raw device whose subsystem is present, construction
  returns a device, and the variant is chosen by the mapping \<open>usb\<close> to USB, \<open>pci\<close> to
  PCI, \<open>dmi\<close> to DMI, \<open>hid\<close> to HID, \<open>bluetooth\<close> to Bluetooth, \<open>ieee80211\<close> to WiFi and
  any other name to the base class; that is the GType of the device (no initialiser
  changes the GType of an instance). A device of the base class gets no initialiser (the
  result does not depend on them) and has the device type \<open>ANY\<close> (0).
\<close>

theorem variant_selection:
  assumes "udev_device_get_subsystem device = Some s"
  shows "\<exists>self. ldm_device_new_from_udev hooks parent_ptr device properties = Inr self \<and>
     new_from_udev_special_type (udev_device_get_subsystem device) =
       Inr (if s = ''usb'' then LDM_TYPE_USB_DEVICE
            else if s = ''pci'' then LDM_TYPE_PCI_DEVICE
            else if s = ''dmi'' then LDM_TYPE_DMI_DEVICE
            else if s = ''hid'' then LDM_TYPE_HID_DEVICE
            else if s = ''bluetooth'' then LDM_TYPE_BLUETOOTH_DEVICE
            else if s = ''ieee80211'' then LDM_TYPE_WIFI_DEVICE
            else LDM_TYPE_DEVICE) \<and>
     (hooks_keep_gtype hooks \<longrightarrow>
        new_from_udev_special_type (udev_device_get_subsystem device) = Inr (gtype self)) \<and>
     (s \<notin> known_subsystems \<longrightarrow>
        gtype self = LDM_TYPE_DEVICE \<and>
        ldm_device_get_device_type (Some self) = LDM_DEVICE_TYPE_ANY \<and>
        (\<forall>other. ldm_device_new_from_udev other parent_ptr device properties = Inr self))"
proof -
  obtain t where t: "new_from_udev_special_type (udev_device_get_subsystem device) = Inr t"
    using assms by (simp add: special_type_Some)
  then obtain self where
    self: "ldm_device_new_from_udev hooks parent_ptr device properties = Inr self"
    by (simp add: ldm_device_new_from_udev_def Let_def)
  have sel: "new_from_udev_special_type (udev_device_get_subsystem device) =
       Inr (if s = ''usb'' then LDM_TYPE_USB_DEVICE
            else if s = ''pci'' then LDM_TYPE_PCI_DEVICE
            else if s = ''dmi'' then LDM_TYPE_DMI_DEVICE
            else if s = ''hid'' then LDM_TYPE_HID_DEVICE
            else if s = ''bluetooth'' then LDM_TYPE_BLUETOOTH_DEVICE
            else if s = ''ieee80211'' then LDM_TYPE_WIFI_DEVICE
            else LDM_TYPE_DEVICE)"
    using assms by (simp only: special_type_Some)
  have keep: "new_from_udev_special_type (udev_device_get_subsystem device) = Inr (gtype self)"
    if "hooks_keep_gtype hooks"
    using new_from_udev_gtype [OF that t, of parent_ptr properties] self t by auto
  have generic: "gtype self = LDM_TYPE_DEVICE \<and>
        ldm_device_get_device_type (Some self) = LDM_DEVICE_TYPE_ANY \<and>
        (\<forall>other. ldm_device_new_from_udev other parent_ptr device properties = Inr self)"
    if unknown: "s \<notin> known_subsystems"
  proof -
    note gen = new_from_udev_generic [OF assms unknown, of _ parent_ptr properties]
    from self gen [of hooks] have
      "self = new_from_udev_fallback_name
           (new_from_udev_hwdb
             (os_update (\<lambda>r. r\<lparr>sysfs_path := udev_device_get_syspath device,
                       modalias := udev_device_get_sysattr_value device ''modalias''\<rparr>)
               (parent_update (\<lambda>_. parent_ptr) (ldm_device_init LDM_TYPE_DEVICE)))
             properties)"
      by simp
    then show ?thesis
      using gen
      by (simp add: fallback_name_others gtype_hwdb os_hwdb_devtype
          ldm_device_get_device_type_def LDM_DEVICE_TYPE_ANY_def ldm_device_init_def)
  qed
  from self sel keep generic show ?thesis by blast
qed

text \<open>
  With an absent subsystem the first \<open>g_str_equal(subsystem, "usb")\<close> reads through
  \<open>NULL\<close>: no device, of the base class or any other, is returned.
\<close>

theorem absent_subsystem_counterexample:
  "ldm_device_new_from_udev example_hooks None (example_udev None) None = Inl NullDereference"
  by (simp add: ldm_device_new_from_udev_def new_from_udev_special_type_def example_udev_def)

lemma nonsense_unknown: "''nonsense'' \<notin> known_subsystems"
  by (simp add: known_subsystems_def)

text \<open>The subsystems \<open>nonsense\<close> and \<open>pci\<close>.\<close>

theorem variant_selection_witness:
  "udev_device_get_subsystem (example_udev (Some ''nonsense'')) = Some ''nonsense'' \<and>
   ''nonsense'' \<notin> known_subsystems \<and>
   hooks_keep_gtype example_hooks \<and>
   (\<exists>self. ldm_device_new_from_udev example_hooks None (example_udev (Some ''nonsense'')) None
            = Inr self \<and>
      gtype self = LDM_TYPE_DEVICE \<and>
      ldm_device_get_device_type (Some self) = LDM_DEVICE_TYPE_ANY) \<and>
   (\<exists>self. ldm_device_new_from_udev example_hooks None (example_udev (Some ''pci'')) None
            = Inr self \<and>
      gtype self = LDM_TYPE_PCI_DEVICE)"
proof -
  have sub: "udev_device_get_subsystem (example_udev (Some s)) = Some s" for s
    by (simp add: example_udev_def)
  from variant_selection [OF sub, of example_hooks None "''nonsense''" None] nonsense_unknown
  have generic: "\<exists>self. ldm_device_new_from_udev example_hooks None
        (example_udev (Some ''nonsense'')) None = Inr self \<and>
      gtype self = LDM_TYPE_DEVICE \<and>
      ldm_device_get_device_type (Some self) = LDM_DEVICE_TYPE_ANY"
    by blast
  from variant_selection [OF sub, of example_hooks None "''pci''" None] example_hooks_keep_gtype
  have pci: "\<exists>self. ldm_device_new_from_udev example_hooks None
        (example_udev (Some ''pci'')) None = Inr self \<and>
      gtype self = LDM_TYPE_PCI_DEVICE"
    by (auto simp: example_udev_def)
  from sub nonsense_unknown example_hooks_keep_gtype generic pci show ?thesis
    by blast
qed

end
